theory Spec2Isabelle
  imports Complex_Main
begin

section \<open>Users and roles (models/user.go)\<close>

text \<open>
  Go strings are byte sequences; they are modelled as \<open>string\<close> (a list of 8-bit
  characters). \<open>UserRole\<close> is a string-backed type with two named constants. A
  \<open>time.Time\<close> instant is an integer count of nanoseconds since the Unix epoch.
\<close>

type_synonym UserRole = string

type_synonym Time = int

definition RoleAdmin :: UserRole where
  "RoleAdmin = ''admin''"

definition RoleSuperAdmin :: UserRole where
  "RoleSuperAdmin = ''super-admin''"

record User =
  ID :: string
  Username :: string
  FirstName :: string
  LastName :: string
  Email :: string
  Password :: string
  ProfilePic :: "string option"
  Role :: UserRole
  CompanyName :: "string option"
  IsActive :: bool
  LastLogin :: "Time option"
  CreatedAt :: Time
  UpdatedAt :: Time

text \<open>A user record that carries the given email, role, password and active flag.\<close>

definition sampleUser :: "string \<Rightarrow> UserRole \<Rightarrow> string \<Rightarrow> bool \<Rightarrow> User" where
  "sampleUser email role pw active =
     \<lparr>ID = ''65a4f0c2e1b2a3c4d5e6f701'', Username = [], FirstName = ''Ada'', LastName = ''Lim'',
      Email = email, Password = pw, ProfilePic = None, Role = role, CompanyName = None,
      IsActive = active, LastLogin = None, CreatedAt = 0, UpdatedAt = 0\<rparr>"

subsection \<open>GenerateUsernameFromEmail\<close>

text \<open>
  \<open>strings.Split(s, "@")\<close> for the one-byte separator: the pieces between the
  separators, never an empty list.
\<close>

fun Split :: "string \<Rightarrow> char \<Rightarrow> string list" where
  "Split [] sep = [[]]"
| "Split (c # cs) sep =
     (if c = sep then [] # Split cs sep
      else (case Split cs sep of [] \<Rightarrow> [[c]] | p # ps \<Rightarrow> (c # p) # ps))"

text \<open>
  The loop \<open>for _, char := range username\<close> decodes UTF-8 and keeps a rune when it is
  an ASCII letter, a digit or an underscore. Every byte below 128 decodes to itself and no
  byte from 128 on is part of a rune that is kept, so the loop is a filter on bytes.
\<close>

definition keepRune :: "char \<Rightarrow> bool" where
  "keepRune ch =
     (let n = (of_char ch :: nat) in
      (97 \<le> n \<and> n \<le> 122) \<or> (65 \<le> n \<and> n \<le> 90) \<or> (48 \<le> n \<and> n \<le> 57) \<or> n = 95)"

text \<open>\<open>strings.ToLower\<close> on one byte: only \<open>A\<close> to \<open>Z\<close> change.\<close>

definition lowerByte :: "char \<Rightarrow> char" where
  "lowerByte ch =
     (let n = (of_char ch :: nat) in
      if 65 \<le> n \<and> n \<le> 90 then char_of (n + 32) else ch)"

definition ToLower :: "string \<Rightarrow> string" where
  "ToLower s = map lowerByte s"

definition GenerateUsernameFromEmail :: "User \<Rightarrow> string" where
  "GenerateUsernameFromEmail u =
     (if Email u = [] then []
      else
        (let parts = Split (Email u) (CHR ''@'') in
         if length parts > 0 then
           (let username = hd parts;
                cleanUsername = filter keepRune username;
                result = ToLower cleanUsername;
                result = (if length result < 3 then result @ ''user'' else result);
                result = (if length result > 30 then take 30 result else result)
            in result)
         else ''user''))"

text \<open>
  The value of \<open>result\<close> after line 173 of the source, written without the split: the
  part of the email before the first \<open>@\<close>, cleaned and lower-cased.
\<close>

definition cleanedLocalPart :: "string \<Rightarrow> string" where
  "cleanedLocalPart email =
     ToLower (filter keepRune (takeWhile (\<lambda>c. c \<noteq> CHR ''@'') email))"

text \<open>The characters a derived username is made of: \<open>a\<close>-\<open>z\<close>, \<open>0\<close>-\<open>9\<close> and \<open>_\<close>.\<close>

definition usernameChar :: "char \<Rightarrow> bool" where
  "usernameChar ch =
     (let n = (of_char ch :: nat) in
      (97 \<le> n \<and> n \<le> 122) \<or> (48 \<le> n \<and> n \<le> 57) \<or> n = 95)"

section \<open>Errors, time and the token claims\<close>

text \<open>
  \<open>models.AuthError\<close> and the four predefined authentication errors. A Go \<open>error\<close>
  value is either a plain message (\<open>errors.New\<close>, or an error of a library), a pointer
  to an \<open>AuthError\<close>, the driver's \<open>mongo.ErrNoDocuments\<close>, or a run-time panic.
\<close>

record AuthError =
  Type :: string
  Message :: string
  Details :: string

datatype error =
    ErrorString string
  | AuthErrorPtr AuthError
  | ErrNoDocuments
  | RuntimePanic string

definition ErrUserNotFound :: AuthError where
  "ErrUserNotFound =
     \<lparr>Type = ''user_not_found'', Message = ''User not found'',
      Details = ''No user exists with this email address''\<rparr>"

definition ErrInvalidPassword :: AuthError where
  "ErrInvalidPassword =
     \<lparr>Type = ''invalid_password'', Message = ''Invalid password'',
      Details = ''The password you entered is incorrect''\<rparr>"

definition ErrAccountDeactivated :: AuthError where
  "ErrAccountDeactivated =
     \<lparr>Type = ''account_deactivated'', Message = ''Account deactivated'',
      Details = ''Your account has been deactivated. Please contact support''\<rparr>"

definition ErrInvalidCredentials :: AuthError where
  "ErrInvalidCredentials =
     \<lparr>Type = ''invalid_credentials'', Message = ''Invalid credentials'',
      Details = ''Email or password is incorrect''\<rparr>"

text \<open>Durations are nanosecond counts, as \<open>time.Duration\<close> is.\<close>

definition Millisecond :: int where
  "Millisecond = 1000000"

definition Second :: int where
  "Second = 1000000000"

definition Hour :: int where
  "Hour = 3600 * Second"

definition Add :: "Time \<Rightarrow> int \<Rightarrow> Time" where
  "Add t d = t + d"

text \<open>
  \<open>jwt.NewNumericDate\<close> cuts the instant to the library's precision of one second.
\<close>

definition NewNumericDate :: "Time \<Rightarrow> Time" where
  "NewNumericDate t = t - t mod Second"

record Claims =
  UserID :: string
  claims_Email :: string
  claims_Username :: string
  claims_Role :: UserRole
  ExpiresAt :: Time
  IssuedAt :: Time
  NotBefore :: Time
  Issuer :: string
  Subject :: string

datatype SigningMethod = SigningMethodHMAC string | SigningMethodOther string

record Token =
  tok_Method :: SigningMethod
  tok_Claims :: "Claims option"
  Valid :: bool

record JWTService =
  secretKey :: string

section \<open>Requests, responses and enquiries\<close>

record SignInRequest =
  req_Email :: string
  req_Password :: string

record UserResponse =
  resp_ID :: string
  resp_Username :: string
  resp_FirstName :: string
  resp_LastName :: string
  resp_Email :: string
  resp_ProfilePic :: "string option"
  resp_Role :: UserRole
  resp_CompanyName :: "string option"
  resp_IsActive :: bool
  resp_LastLogin :: "Time option"
  resp_CreatedAt :: Time
  resp_UpdatedAt :: Time

record SignInResponse =
  signin_User :: UserResponse
  signin_Message :: string
  LoginTime :: Time
  signin_Token :: string
  signin_ExpiresAt :: Time
  signin_Role :: UserRole

text \<open>
  \<open>int64\<close> values are integers kept in the range of 64-bit two's complement by
  \<open>wrap64\<close>, which every arithmetic operation of the source is followed by.
  \<open>primitive.DateTime\<close> is an \<open>int64\<close> count of milliseconds since the Unix epoch.
\<close>

type_synonym int64 = int

type_synonym DateTime = int

record Query =
  QueryID :: string
  q_FirstName :: string
  q_LastName :: string
  q_Email :: string
  PhoneNumber :: string
  q_CompanyName :: string
  q_EnquiryType :: string
  q_Message :: string
  q_CreatedAt :: DateTime
  q_UpdatedAt :: DateTime

record PaginationInfo =
  CurrentPage :: int64
  TotalPages :: int64
  TotalCount :: int64
  Limit :: int64
  HasNext :: bool
  HasPrevious :: bool
  NextPage :: int64
  PreviousPage :: int64

record EnquiryFilters =
  EnquiryType :: string
  Date :: string

record EnquiryListResponse =
  Enquiries :: "Query list"
  Pagination :: PaginationInfo
  Filters :: EnquiryFilters

record ErrorResponse =
  StatusCode :: int
  Status :: string
  err_Message :: string
  Error :: string
  Timestamp :: string

datatype Payload =
    EnquiryListData EnquiryListResponse
  | SignInData SignInResponse

record Response =
  ok_StatusCode :: int
  ok_Status :: string
  ok_Message :: string
  Data :: Payload
  ok_Timestamp :: string

text \<open>
  What \<open>SendJSONResponse\<close> writes: the status code and the value encoded as the body.
  A handler that panics writes nothing.
\<close>

datatype Body = ErrorBody ErrorResponse | SuccessBody Response

datatype Reply = Sent int Body | Panicked string

text \<open>
  \<open>http.Header\<close> and \<open>url.Values\<close> map a key to a list of values; \<open>Get\<close> returns
  the first one, and the empty string when there is none. The values stored in a request
  context carry their dynamic type, which the type assertions of the middleware test.
\<close>

type_synonym Values = "string \<rightharpoonup> string list"

definition Get :: "Values \<Rightarrow> string \<Rightarrow> string" where
  "Get vs key = (case vs key of None \<Rightarrow> [] | Some [] \<Rightarrow> [] | Some (v # _) \<Rightarrow> v)"

datatype ctxValue = StringValue string | UserRoleValue UserRole

record Request =
  Method :: string
  URLPath :: string
  URLQuery :: Values
  Header :: Values
  RequestBody :: string
  Context :: "string \<rightharpoonup> ctxValue"

section \<open>The outside world\<close>

text \<open>
  The filters the services send to the document store: \<open>bson.M\<close> with one key for the
  user collection, and with the optional keys \<open>enquiry_type\<close> and \<open>created_at\<close> (a
  pair of \<open>$gte\<close> and \<open>$lte\<close> bounds) for the enquiry collection.
\<close>

datatype UserFilter = ById string | ByEmail string | ByUsername string

record Filter =
  enquiry_type :: "string option"
  created_at :: "(DateTime \<times> DateTime) option"

record FindOptions =
  opt_Limit :: int64
  opt_Skip :: int64
  opt_Sort :: "(string \<times> int) list"

text \<open>
  The libraries and services the program calls are parameters of the model: the wall
  clock (its successive readings), the RFC 3339 formatter, bcrypt, the JWT library, the
  JSON decoder and the MongoDB driver over a store state \<open>'db\<close>. The model fixes nothing
  about them beyond their types.
\<close>

record 'db Deps =
  time_Now :: "nat \<Rightarrow> Time"
  time_Format :: "Time \<Rightarrow> string"
  bcrypt_GenerateFromPassword :: "string \<Rightarrow> error + string"
  bcrypt_CompareHashAndPassword :: "string \<Rightarrow> string \<Rightarrow> error option"
  jwt_SignedString :: "string \<Rightarrow> Claims \<Rightarrow> error + string"
  jwt_ParseWithClaims :: "string \<Rightarrow> (Token \<Rightarrow> error + string) \<Rightarrow> error + Token"
  json_DecodeSignIn :: "string \<Rightarrow> error + SignInRequest"
  Users_FindOne :: "'db \<Rightarrow> UserFilter \<Rightarrow> error + User"
  Users_UpdateOne :: "'db \<Rightarrow> UserFilter \<Rightarrow> (string \<rightharpoonup> Time) \<Rightarrow> error + 'db"
  Enquiries_Find :: "'db \<Rightarrow> Filter \<Rightarrow> FindOptions \<Rightarrow> error + Query list"
  Enquiries_CountDocuments :: "'db \<Rightarrow> Filter \<Rightarrow> error + int64"

text \<open>
  The state a request runs in: how many times the clock has been read, and the store.
\<close>

record 'db World =
  ticks :: nat
  db :: 'db

definition Now :: "'db Deps \<Rightarrow> 'db World \<Rightarrow> Time \<times> 'db World" where
  "Now deps w = (time_Now deps (ticks w), w\<lparr>ticks := Suc (ticks w)\<rparr>)"

type_synonym 'db Handler = "Request \<Rightarrow> 'db World \<Rightarrow> Reply \<times> 'db World"

subsection \<open>Response envelopes (package models)\<close>

definition CreateSuccessResponse ::
  "'db Deps \<Rightarrow> 'db World \<Rightarrow> int \<Rightarrow> string \<Rightarrow> Payload \<Rightarrow> Response \<times> 'db World" where
  "CreateSuccessResponse deps w statusCode message payload =
     (let (t, w') = Now deps w in
      (\<lparr>ok_StatusCode = statusCode, ok_Status = ''success'', ok_Message = message,
        Data = payload, ok_Timestamp = time_Format deps t\<rparr>, w'))"

definition CreateErrorResponse ::
  "'db Deps \<Rightarrow> 'db World \<Rightarrow> int \<Rightarrow> string \<Rightarrow> string \<Rightarrow> ErrorResponse \<times> 'db World" where
  "CreateErrorResponse deps w statusCode message err =
     (let (t, w') = Now deps w in
      (\<lparr>StatusCode = statusCode, Status = ''error'', err_Message = message,
        Error = err, Timestamp = time_Format deps t\<rparr>, w'))"

text \<open>
  The recurring pair of calls \<open>SendJSONResponse(w, code, CreateErrorResponse(code, ...))\<close>
  followed by \<open>return\<close>.
\<close>

definition sendError ::
  "'db Deps \<Rightarrow> 'db World \<Rightarrow> int \<Rightarrow> string \<Rightarrow> string \<Rightarrow> Reply \<times> 'db World" where
  "sendError deps w statusCode message err =
     (let (resp, w') = CreateErrorResponse deps w statusCode message err in
      (Sent statusCode (ErrorBody resp), w'))"

definition sendSuccess ::
  "'db Deps \<Rightarrow> 'db World \<Rightarrow> int \<Rightarrow> string \<Rightarrow> Payload \<Rightarrow> Reply \<times> 'db World" where
  "sendSuccess deps w statusCode message payload =
     (let (resp, w') = CreateSuccessResponse deps w statusCode message payload in
      (Sent statusCode (SuccessBody resp), w'))"

definition StatusOK :: int where "StatusOK = 200"
definition StatusBadRequest :: int where "StatusBadRequest = 400"
definition StatusUnauthorized :: int where "StatusUnauthorized = 401"
definition StatusForbidden :: int where "StatusForbidden = 403"
definition StatusMethodNotAllowed :: int where "StatusMethodNotAllowed = 405"
definition StatusUnsupportedMediaType :: int where "StatusUnsupportedMediaType = 415"
definition StatusInternalServerError :: int where "StatusInternalServerError = 500"

definition HasPrefix :: "string \<Rightarrow> string \<Rightarrow> bool" where
  "HasPrefix s p = (take (length p) s = p)"

definition TrimPrefix :: "string \<Rightarrow> string \<Rightarrow> string" where
  "TrimPrefix s p = (if HasPrefix s p then drop (length p) s else s)"

text \<open>\<open>strings.Contains\<close> for a one-byte substring.\<close>

definition Contains :: "string \<Rightarrow> char \<Rightarrow> bool" where
  "Contains s c = (c \<in> set s)"

section \<open>The token service (package services, JWTService)\<close>

definition GenerateToken ::
  "'db Deps \<Rightarrow> JWTService \<Rightarrow> User \<Rightarrow> 'db World \<Rightarrow> (error + string) \<times> 'db World" where
  "GenerateToken deps s user w =
     (let (expiration, w1) =
        (if Role user = RoleAdmin then
           (let (t, w') = Now deps w in (Some (Add t (48 * Hour)), w'))
         else if Role user = RoleSuperAdmin then
           (let (t, w') = Now deps w in (Some (Add t (30 * 24 * Hour)), w'))
         else (None, w))
      in
      case expiration of
        None \<Rightarrow> (Inl (ErrorString ''invalid user role''), w1)
      | Some expires \<Rightarrow>
          (let (iat, w2) = Now deps w1;
               (nbf, w3) = Now deps w2;
               claims = \<lparr>UserID = ID user, claims_Email = Email user,
                         claims_Username = Username user, claims_Role = Role user,
                         ExpiresAt = NewNumericDate expires,
                         IssuedAt = NewNumericDate iat,
                         NotBefore = NewNumericDate nbf,
                         Issuer = ''rgp-backend-enquiry'',
                         Subject = ID user\<rparr>
           in (jwt_SignedString deps (secretKey s) claims, w3)))"

definition keyFunc :: "JWTService \<Rightarrow> Token \<Rightarrow> error + string" where
  "keyFunc s token =
     (case tok_Method token of
        SigningMethodHMAC _ \<Rightarrow> Inr (secretKey s)
      | SigningMethodOther _ \<Rightarrow> Inl (ErrorString ''unexpected signing method''))"

definition ValidateToken :: "'db Deps \<Rightarrow> JWTService \<Rightarrow> string \<Rightarrow> error + Claims" where
  "ValidateToken deps s tokenString =
     (case jwt_ParseWithClaims deps tokenString (keyFunc s) of
        Inl err \<Rightarrow> Inl err
      | Inr token \<Rightarrow>
          if \<not> Valid token then Inl (ErrorString ''invalid token'')
          else (case tok_Claims token of
                  Some claims \<Rightarrow> Inr claims
                | None \<Rightarrow> Inl (ErrorString ''invalid token claims'')))"

definition GetTokenExpiration :: "UserRole \<Rightarrow> int" where
  "GetTokenExpiration role =
     (if role = RoleAdmin then 48 * Hour
      else if role = RoleSuperAdmin then 30 * 24 * Hour
      else 24 * Hour)"

section \<open>Authentication and role middleware (package middleware, routes/routes.go)\<close>

definition AuthMiddleware :: "'db Deps \<Rightarrow> JWTService \<Rightarrow> 'db Handler \<Rightarrow> 'db Handler" where
  "AuthMiddleware deps jwtService next r w =
     (let authHeader = Get (Header r) ''Authorization'' in
      if authHeader = [] then
        sendError deps w StatusUnauthorized ''Authorization header missing''
          ''Bearer token is required''
      else if \<not> HasPrefix authHeader ''Bearer '' then
        sendError deps w StatusUnauthorized ''Invalid authorization format''
          (''Authorization header must be '' @ [CHR 0x27] @ ''Bearer <token>'' @ [CHR 0x27])
      else
        (let tokenString = TrimPrefix authHeader ''Bearer '' in
         case ValidateToken deps jwtService tokenString of
           Inl err \<Rightarrow>
             sendError deps w StatusUnauthorized ''Invalid token'' ''Token is expired or invalid''
         | Inr claims \<Rightarrow>
             (let ctx = Context r;
                  ctx = ctx(''user_id'' \<mapsto> StringValue (UserID claims));
                  ctx = ctx(''user_email'' \<mapsto> StringValue (claims_Email claims));
                  ctx = ctx(''user_role'' \<mapsto> UserRoleValue (claims_Role claims));
                  ctx = ctx(''user_username'' \<mapsto> StringValue (claims_Username claims));
                  r = r\<lparr>Context := ctx\<rparr>
              in next r w)))"

definition RoleMiddleware :: "'db Deps \<Rightarrow> UserRole \<Rightarrow> 'db Handler \<Rightarrow> 'db Handler" where
  "RoleMiddleware deps requiredRole next r w =
     (case Context r ''user_role'' of
        Some (UserRoleValue userRole) \<Rightarrow>
          if userRole \<noteq> requiredRole \<and> userRole \<noteq> RoleSuperAdmin then
            sendError deps w StatusForbidden ''Insufficient permissions''
              ''Access denied: insufficient role permissions''
          else next r w
      | _ \<Rightarrow>
          sendError deps w StatusInternalServerError ''User role not found in context''
            ''Authentication middleware must be applied before role middleware'')"

definition AdminOrSuperAdminMiddleware :: "'db Deps \<Rightarrow> 'db Handler \<Rightarrow> 'db Handler" where
  "AdminOrSuperAdminMiddleware deps next r w =
     (case Context r ''user_role'' of
        Some (UserRoleValue userRole) \<Rightarrow>
          if userRole \<noteq> RoleAdmin \<and> userRole \<noteq> RoleSuperAdmin then
            sendError deps w StatusForbidden ''Insufficient permissions''
              ''Access denied: admin or super-admin role required''
          else next r w
      | _ \<Rightarrow>
          sendError deps w StatusInternalServerError ''User role not found in context''
            ''Authentication middleware must be applied before role middleware'')"

text \<open>The function given to \<open>router.Use\<close> in \<open>SetupRoutes\<close>.\<close>

definition routerUse :: "'db Deps \<Rightarrow> JWTService \<Rightarrow> 'db Handler \<Rightarrow> 'db Handler" where
  "routerUse deps jwtService next r w =
     (if Method r = ''OPTIONS'' then next r w
      else if URLPath r = ''/'' \<or> URLPath r = ''/enquiry'' \<or> URLPath r = ''/create-user'' \<or>
              URLPath r = ''/auth/signin'' \<or> URLPath r = ''/auth/login'' \<or>
              URLPath r = ''/health'' then next r w
      else
        (let roleHandler = AdminOrSuperAdminMiddleware deps next;
             authHandler = AuthMiddleware deps jwtService roleHandler
         in authHandler r w))"

section \<open>Passwords (models/user.go)\<close>

text \<open>
  \<open>HashPassword\<close> returns an error or \<open>nil\<close> and, on success, has replaced the
  password of its receiver by the hash: the model returns both.
\<close>

definition HashPassword :: "'db Deps \<Rightarrow> User \<Rightarrow> error option \<times> User" where
  "HashPassword deps u =
     (case bcrypt_GenerateFromPassword deps (Password u) of
        Inl err \<Rightarrow> (Some err, u)
      | Inr hashedPassword \<Rightarrow> (None, u\<lparr>Password := hashedPassword\<rparr>))"

definition CheckPassword :: "'db Deps \<Rightarrow> User \<Rightarrow> string \<Rightarrow> bool" where
  "CheckPassword deps u password =
     (let err = bcrypt_CompareHashAndPassword deps (Password u) password in err = None)"

definition ToResponse :: "User \<Rightarrow> UserResponse" where
  "ToResponse u =
     \<lparr>resp_ID = ID u, resp_Username = Username u, resp_FirstName = FirstName u,
      resp_LastName = LastName u, resp_Email = Email u, resp_ProfilePic = ProfilePic u,
      resp_Role = Role u, resp_CompanyName = CompanyName u, resp_IsActive = IsActive u,
      resp_LastLogin = LastLogin u, resp_CreatedAt = CreatedAt u,
      resp_UpdatedAt = UpdatedAt u\<rparr>"

text \<open>\<open>err.Error()\<close>: the message of an error value.\<close>

fun ErrorText :: "error \<Rightarrow> string" where
  "ErrorText (ErrorString m) = m"
| "ErrorText (AuthErrorPtr a) = Message a"
| "ErrorText ErrNoDocuments = ''mongo: no documents in result''"
| "ErrorText (RuntimePanic m) = m"

section \<open>The user service (package services, UserService)\<close>

text \<open>
  A lookup returns the user, \<open>nil\<close> when the store has no such document, or the
  store's error.
\<close>

definition GetUserByID :: "'db Deps \<Rightarrow> 'db World \<Rightarrow> string \<Rightarrow> error + User option" where
  "GetUserByID deps w uid =
     (case Users_FindOne deps (db w) (ById uid) of
        Inl err \<Rightarrow> (if err = ErrNoDocuments then Inr None else Inl err)
      | Inr user \<Rightarrow> Inr (Some user))"

definition GetUserByEmail :: "'db Deps \<Rightarrow> 'db World \<Rightarrow> string \<Rightarrow> error + User option" where
  "GetUserByEmail deps w email =
     (case Users_FindOne deps (db w) (ByEmail email) of
        Inl err \<Rightarrow> (if err = ErrNoDocuments then Inr None else Inl err)
      | Inr user \<Rightarrow> Inr (Some user))"

definition UpdateUser ::
  "'db Deps \<Rightarrow> 'db World \<Rightarrow> string \<Rightarrow> (string \<rightharpoonup> Time) \<Rightarrow>
     (error + User option) \<times> 'db World" where
  "UpdateUser deps w uid updates =
     (let (t, w1) = Now deps w;
          updates = updates(''updated_at'' \<mapsto> t)
      in case Users_UpdateOne deps (db w1) (ById uid) updates of
           Inl err \<Rightarrow> (Inl err, w1)
         | Inr db' \<Rightarrow> (let w2 = w1\<lparr>db := db'\<rparr> in (GetUserByID deps w2 uid, w2)))"

definition AuthenticateUser ::
  "'db Deps \<Rightarrow> 'db World \<Rightarrow> string \<Rightarrow> string \<Rightarrow> (error + User) \<times> 'db World" where
  "AuthenticateUser deps w email password =
     (case GetUserByEmail deps w email of
        Inl err \<Rightarrow> (Inl err, w)
      | Inr None \<Rightarrow> (Inl (AuthErrorPtr ErrUserNotFound), w)
      | Inr (Some user) \<Rightarrow>
          if \<not> IsActive user then (Inl (AuthErrorPtr ErrAccountDeactivated), w)
          else if \<not> CheckPassword deps user password then
            (Inl (AuthErrorPtr ErrInvalidPassword), w)
          else
            (let (now, w1) = Now deps w;
                 (_, w2) = UpdateUser deps w1 (ID user) [''last_login'' \<mapsto> now]
             in (Inr user, w2)))"

definition SignInUser ::
  "'db Deps \<Rightarrow> JWTService \<Rightarrow> 'db World \<Rightarrow> string \<Rightarrow> string \<Rightarrow>
     (error + SignInResponse) \<times> 'db World" where
  "SignInUser deps s w email password =
     (case AuthenticateUser deps w email password of
        (Inl err, w1) \<Rightarrow> (Inl err, w1)
      | (Inr user, w1) \<Rightarrow>
          (case GenerateToken deps s user w1 of
             (Inl err, w2) \<Rightarrow> (Inl err, w2)
           | (Inr token, w2) \<Rightarrow>
               (let expiration = GetTokenExpiration (Role user);
                    (loginTime, w3) = Now deps w2;
                    (t, w4) = Now deps w3
                in (Inr \<lparr>signin_User = ToResponse user, signin_Message = ''Sign-in successful'',
                         LoginTime = loginTime, signin_Token = token,
                         signin_ExpiresAt = Add t expiration, signin_Role = Role user\<rparr>,
                    w4))))"

section \<open>The sign-in handler (controllers/user_controller.go)\<close>

definition SignIn :: "'db Deps \<Rightarrow> JWTService \<Rightarrow> 'db Handler" where
  "SignIn deps s r w =
     (if Method r \<noteq> ''POST'' then
        sendError deps w StatusMethodNotAllowed ''Method not allowed''
          ''Only POST method is allowed for this endpoint''
      else if \<not> HasPrefix (Get (Header r) ''Content-Type'') ''application/json'' then
        sendError deps w StatusUnsupportedMediaType ''Unsupported media type''
          ''Content-Type must be application/json''
      else
        (case json_DecodeSignIn deps (RequestBody r) of
           Inl err \<Rightarrow> sendError deps w StatusBadRequest ''Invalid JSON format'' (ErrorText err)
         | Inr signInReq \<Rightarrow>
             if req_Email signInReq = [] \<or> req_Password signInReq = [] then
               sendError deps w StatusBadRequest ''Missing required fields''
                 ''email and password are required''
             else if \<not> Contains (req_Email signInReq) (CHR ''@'') \<or>
                     \<not> Contains (req_Email signInReq) (CHR ''.'') then
               sendError deps w StatusBadRequest ''Invalid email format''
                 ''Email must contain @ and domain''
             else
               (case SignInUser deps s w (req_Email signInReq) (req_Password signInReq) of
                  (Inl err, w1) \<Rightarrow>
                    (case err of
                       AuthErrorPtr authErr \<Rightarrow>
                         if Type authErr = ''user_not_found'' then
                           sendError deps w1 StatusUnauthorized ''Email not found''
                             (Details authErr)
                         else if Type authErr = ''invalid_password'' then
                           sendError deps w1 StatusUnauthorized ''Wrong password''
                             (Details authErr)
                         else if Type authErr = ''account_deactivated'' then
                           sendError deps w1 StatusForbidden ''Account deactivated''
                             (Details authErr)
                         else
                           sendError deps w1 StatusInternalServerError ''Sign-in failed''
                             ''An unexpected error occurred. Please try again later.''
                     | _ \<Rightarrow>
                         sendError deps w1 StatusInternalServerError ''Sign-in failed''
                           ''An unexpected error occurred. Please try again later.'')
                | (Inr signInResponse, w1) \<Rightarrow>
                    sendSuccess deps w1 StatusOK ''Sign-in successful''
                      (SignInData signInResponse))))"

section \<open>64-bit integers\<close>

text \<open>
  Go's \<open>int64\<close> arithmetic wraps around silently; its division truncates towards zero
  and panics on a zero divisor.
\<close>

definition MaxInt64 :: int where
  "MaxInt64 = 2 ^ 63 - 1"

definition MinInt64 :: int where
  "MinInt64 = - (2 ^ 63)"

definition wrap64 :: "int \<Rightarrow> int64" where
  "wrap64 x = (x + 2 ^ 63) mod 2 ^ 64 - 2 ^ 63"

definition add64 :: "int64 \<Rightarrow> int64 \<Rightarrow> int64" where
  "add64 a b = wrap64 (a + b)"

definition sub64 :: "int64 \<Rightarrow> int64 \<Rightarrow> int64" where
  "sub64 a b = wrap64 (a - b)"

definition mul64 :: "int64 \<Rightarrow> int64 \<Rightarrow> int64" where
  "mul64 a b = wrap64 (a * b)"

definition quo64 :: "int64 \<Rightarrow> int64 \<Rightarrow> int64" where
  "quo64 a b =
     wrap64 (if (a < 0) = (b < 0) then \<bar>a\<bar> div \<bar>b\<bar> else - (\<bar>a\<bar> div \<bar>b\<bar>))"

section \<open>Library functions the enquiry list relies on\<close>

definition isDigit :: "char \<Rightarrow> bool" where
  "isDigit ch = (48 \<le> (of_char ch :: nat) \<and> (of_char ch :: nat) \<le> 57)"

definition digitValue :: "char \<Rightarrow> int" where
  "digitValue ch = int (of_char ch) - 48"

fun decimal :: "int \<Rightarrow> string \<Rightarrow> int" where
  "decimal acc [] = acc"
| "decimal acc (ch # cs) = decimal (acc * 10 + digitValue ch) cs"

text \<open>
  \<open>strconv.ParseInt(s, 10, 64)\<close>: an optional sign, then one or more decimal digits;
  a syntax error otherwise, a range error when the value does not fit \<open>int64\<close>.
\<close>

definition ParseInt :: "string \<Rightarrow> error + int64" where
  "ParseInt s =
     (if s = [] then Inl (ErrorString ''invalid syntax'')
      else
        (let neg = (hd s = CHR ''-'');
             s0 = (if hd s = CHR ''+'' \<or> hd s = CHR ''-'' then tl s else s)
         in if s0 = [] \<or> \<not> list_all isDigit s0 then Inl (ErrorString ''invalid syntax'')
            else
              (let un = decimal 0 s0 in
               if \<not> neg \<and> un \<ge> 2 ^ 63 then Inl (ErrorString ''value out of range'')
               else if neg \<and> un > 2 ^ 63 then Inl (ErrorString ''value out of range'')
               else Inr (if neg then - un else un))))"

text \<open>
  \<open>time.Parse("2006-01-02", value)\<close>: four digits, a hyphen, two digits, a hyphen, two
  digits and nothing else; the month must be 1 to 12 and the day must exist in that month
  of that year. The result is midnight UTC of that date, given here by its year, month and
  day, which are what \<open>Year()\<close>, \<open>Month()\<close> and \<open>Day()\<close> return for it.
\<close>

definition isLeap :: "int \<Rightarrow> bool" where
  "isLeap year = (year mod 4 = 0 \<and> (year mod 100 \<noteq> 0 \<or> year mod 400 = 0))"

definition daysIn :: "int \<Rightarrow> int \<Rightarrow> int" where
  "daysIn month year =
     (if month = 2 then (if isLeap year then 29 else 28)
      else if month = 4 \<or> month = 6 \<or> month = 9 \<or> month = 11 then 30
      else 31)"

definition ParseDate :: "string \<Rightarrow> error + (int \<times> int \<times> int)" where
  "ParseDate v =
     (if length v = 10 \<and> list_all isDigit (take 4 v) \<and> v ! 4 = CHR ''-'' \<and>
         list_all isDigit (take 2 (drop 5 v)) \<and> v ! 7 = CHR ''-'' \<and>
         list_all isDigit (drop 8 v) then
        (let year = decimal 0 (take 4 v);
             month = decimal 0 (take 2 (drop 5 v));
             day = decimal 0 (drop 8 v)
         in if month \<le> 0 \<or> 12 < month then Inl (ErrorString ''month out of range'')
            else if day < 1 \<or> day > daysIn month year then
              Inl (ErrorString ''day out of range'')
            else Inr (year, month, day))
      else Inl (ErrorString ''cannot parse date''))"

text \<open>
  \<open>time.Date(year, month, day, hour, min, sec, nsec, time.UTC)\<close> for fields that are in
  range: the instant, by the count of days of the proleptic Gregorian calendar since
  1970-01-01.
\<close>

definition daysFromCivil :: "int \<Rightarrow> int \<Rightarrow> int \<Rightarrow> int" where
  "daysFromCivil year month day =
     (let y = (if month \<le> 2 then year - 1 else year);
          era = y div 400;
          yoe = y - era * 400;
          mp = (if month > 2 then month - 3 else month + 9);
          doy = (153 * mp + 2) div 5 + day - 1;
          doe = yoe * 365 + yoe div 4 - yoe div 100 + doy
      in era * 146097 + doe - 719468)"

definition time_Date :: "int \<Rightarrow> int \<Rightarrow> int \<Rightarrow> int \<Rightarrow> int \<Rightarrow> int \<Rightarrow> int \<Rightarrow> Time" where
  "time_Date year month day hour minute sec nsec =
     (daysFromCivil year month day * 86400 + hour * 3600 + minute * 60 + sec) * Second + nsec"

text \<open>
  \<open>primitive.NewDateTimeFromTime(t)\<close> is \<open>t.Unix()*1e3 + t.Nanosecond()/1e6\<close>: the
  instant in milliseconds, the rest of the nanoseconds dropped.
\<close>

definition NewDateTimeFromTime :: "Time \<Rightarrow> DateTime" where
  "NewDateTimeFromTime t = (t div Second) * 1000 + (t mod Second) div Millisecond"

section \<open>The enquiry service (services/enquiry_service.go)\<close>

text \<open>Lines 68 to 100 of \<open>GetAllEnquiries\<close>: the filter sent to the store.\<close>

definition enquiryFilter :: "string \<Rightarrow> string \<Rightarrow> Filter" where
  "enquiryFilter enquiryType date =
     (let filter = \<lparr>enquiry_type = None, created_at = None\<rparr>;
          filter = (if enquiryType \<noteq> [] then filter\<lparr>enquiry_type := Some enquiryType\<rparr>
                    else filter)
      in if date \<noteq> [] then
           (case ParseDate date of
              Inl err \<Rightarrow> filter
            | Inr (year, month, day) \<Rightarrow>
                (let startOfDay = time_Date year month day 0 0 0 0;
                     endOfDay = time_Date year month day 23 59 59 999999999;
                     startDateTime = NewDateTimeFromTime startOfDay;
                     endDateTime = NewDateTimeFromTime endOfDay
                 in filter\<lparr>created_at := Some (startDateTime, endDateTime)\<rparr>))
         else filter)"

text \<open>Lines 105 to 112: the skip value and the find options.\<close>

definition enquiryFindOptions :: "int64 \<Rightarrow> int64 \<Rightarrow> FindOptions" where
  "enquiryFindOptions page limit =
     (let skip = mul64 (sub64 page 1) limit
      in \<lparr>opt_Limit = limit, opt_Skip = skip, opt_Sort = [(''created_at'', - 1)]\<rparr>)"

text \<open>
  The store's answer to \<open>Find\<close> stands for the cursor decoded by \<open>cursor.All\<close>; an
  error of either is an error of \<open>Enquiries_Find\<close>. The debug lines the function
  prints with \<open>fmt.Printf\<close> are left out.
\<close>

definition GetAllEnquiries ::
  "'db Deps \<Rightarrow> 'db World \<Rightarrow> int64 \<Rightarrow> int64 \<Rightarrow> string \<Rightarrow> string \<Rightarrow>
     error + EnquiryListResponse" where
  "GetAllEnquiries deps w page limit enquiryType date =
     (let filter = enquiryFilter enquiryType date;
          findOptions = enquiryFindOptions page limit
      in case Enquiries_Find deps (db w) filter findOptions of
           Inl err \<Rightarrow> Inl err
         | Inr enquiries \<Rightarrow>
             (case Enquiries_CountDocuments deps (db w) filter of
                Inl err \<Rightarrow> Inl err
              | Inr totalCount \<Rightarrow>
                  if limit = 0 then Inl (RuntimePanic ''integer divide by zero'')
                  else
                    (let totalPages = quo64 (sub64 (add64 totalCount limit) 1) limit;
                         hasNext = (page < totalPages);
                         hasPrev = (page > 1)
                     in Inr \<lparr>Enquiries = enquiries,
                             Pagination =
                               \<lparr>CurrentPage = page, TotalPages = totalPages,
                                TotalCount = totalCount, Limit = limit, HasNext = hasNext,
                                HasPrevious = hasPrev, NextPage = add64 page 1,
                                PreviousPage = sub64 page 1\<rparr>,
                             Filters = \<lparr>EnquiryType = enquiryType, Date = date\<rparr>\<rparr>)))"

text \<open>
  What the document store does with the \<open>created_at\<close> part of a filter: both bounds are
  inclusive.
\<close>

definition createdAtMatches :: "Filter \<Rightarrow> DateTime \<Rightarrow> bool" where
  "createdAtMatches f t =
     (case created_at f of None \<Rightarrow> True | Some (gte, lte) \<Rightarrow> gte \<le> t \<and> t \<le> lte)"

section \<open>The enquiry list handler (controllers/enquiry_controller.go)\<close>

text \<open>Lines 148 to 166 of the handler: the effective page and the effective limit.\<close>

definition parsePage :: "string \<Rightarrow> int64" where
  "parsePage pageStr =
     (let page = 1 in
      if pageStr \<noteq> [] then
        (case ParseInt pageStr of
           Inr parsedPage \<Rightarrow> if parsedPage > 0 then parsedPage else page
         | Inl err \<Rightarrow> page)
      else page)"

definition parseLimit :: "string \<Rightarrow> int64" where
  "parseLimit limitStr =
     (let limit = 10 in
      if limitStr \<noteq> [] then
        (case ParseInt limitStr of
           Inr parsedLimit \<Rightarrow>
             if parsedLimit > 0 then (if parsedLimit > 100 then 100 else parsedLimit)
             else limit
         | Inl err \<Rightarrow> limit)
      else limit)"

definition GetAllEnquiriesHandler :: "'db Deps \<Rightarrow> 'db Handler" where
  "GetAllEnquiriesHandler deps r w =
     (if Method r \<noteq> ''GET'' then
        sendError deps w StatusMethodNotAllowed ''Method not allowed''
          ''Only GET method is allowed for this endpoint''
      else
        (let pageStr = Get (URLQuery r) ''page'';
             limitStr = Get (URLQuery r) ''limit'';
             enquiryType = Get (URLQuery r) ''enquiry_type'';
             date = Get (URLQuery r) ''date'';
             page = parsePage pageStr;
             limit = parseLimit limitStr
         in case GetAllEnquiries deps w page limit enquiryType date of
              Inl (RuntimePanic m) \<Rightarrow> (Panicked m, w)
            | Inl err \<Rightarrow>
                sendError deps w StatusInternalServerError ''Failed to retrieve enquiries''
                  (ErrorText err)
            | Inr enquiries \<Rightarrow>
                sendSuccess deps w StatusOK ''Enquiries retrieved successfully''
                  (EnquiryListData enquiries)))"

section \<open>A stand-in for the outside world\<close>

text \<open>
  Concrete collaborators on which the model can be run: a clock whose readings are a
  quarter of a second apart, a store that is a list of users, a password primitive with
  bcrypt's interface (it refuses only passwords over 72 bytes), and a token format that
  carries the role in the clear. They serve the closed examples only; every general
  theorem below is about arbitrary collaborators.
\<close>

definition stubClaims :: "UserRole \<Rightarrow> Claims" where
  "stubClaims role =
     \<lparr>UserID = ''65a4f0c2e1b2a3c4d5e6f701'', claims_Email = ''ada@x.io'',
      claims_Username = ''ada'', claims_Role = role, ExpiresAt = 1700172800000000000,
      IssuedAt = 1700000000000000000, NotBefore = 1700000000000000000,
      Issuer = ''rgp-backend-enquiry'', Subject = ''65a4f0c2e1b2a3c4d5e6f701''\<rparr>"

definition stubParse :: "string \<Rightarrow> (Token \<Rightarrow> error + string) \<Rightarrow> error + Token" where
  "stubParse s keyfunc =
     (if take 6 s = ''hs256.'' then
        (let token = \<lparr>tok_Method = SigningMethodHMAC ''HS256'',
                       tok_Claims = Some (stubClaims (drop 6 s)), Valid = True\<rparr>
         in case keyfunc token of Inl e \<Rightarrow> Inl e | Inr _ \<Rightarrow> Inr token)
      else Inl (ErrorString ''token is malformed''))"

definition stubFindOne :: "User list \<Rightarrow> UserFilter \<Rightarrow> error + User" where
  "stubFindOne users f =
     (case find (\<lambda>u. case f of ById i \<Rightarrow> ID u = i | ByEmail e \<Rightarrow> Email u = e
                               | ByUsername n \<Rightarrow> Username u = n) users of
        None \<Rightarrow> Inl ErrNoDocuments
      | Some u \<Rightarrow> Inr u)"

definition stubDecode :: "string \<Rightarrow> error + SignInRequest" where
  "stubDecode body =
     (case Split body (CHR '' '') of
        [e, p] \<Rightarrow> Inr \<lparr>req_Email = e, req_Password = p\<rparr>
      | _ \<Rightarrow> Inl (ErrorString ''unexpected end of JSON input''))"

definition stubDeps :: "User list Deps" where
  "stubDeps =
     \<lparr>time_Now = (\<lambda>n. 1700000000900000000 + int n * 250000000),
      time_Format = (\<lambda>t. ''2023-11-14T22:13:20Z''),
      bcrypt_GenerateFromPassword =
        (\<lambda>p. if length p > 72 then Inl (ErrorString ''bcrypt: password length exceeds 72 bytes'')
              else Inr (''$2a$10$'' @ p)),
      bcrypt_CompareHashAndPassword =
        (\<lambda>h p. if h = ''$2a$10$'' @ p then None
                else Some (ErrorString ''hashedPassword is not the hash of the given password'')),
      jwt_SignedString = (\<lambda>key claims. Inr (''hs256.'' @ claims_Role claims)),
      jwt_ParseWithClaims = stubParse,
      json_DecodeSignIn = stubDecode,
      Users_FindOne = stubFindOne,
      Users_UpdateOne = (\<lambda>users f updates. Inr users),
      Enquiries_Find = (\<lambda>users f opts. Inr []),
      Enquiries_CountDocuments = (\<lambda>users f. Inr 25)\<rparr>"

definition stubWorld :: "User list World" where
  "stubWorld =
     \<lparr>ticks = 0,
      db = [sampleUser ''ada@x.io'' RoleAdmin ''$2a$10$correct-horse'' True,
            sampleUser ''bob@x.io'' RoleSuperAdmin ''$2a$10$battery-staple'' False]\<rparr>"

definition stubService :: JWTService where
  "stubService = \<lparr>secretKey = ''secret''\<rparr>"

text \<open>A request with one header and one query string, and an endpoint that answers 200.\<close>

definition stubRequest :: "string \<Rightarrow> string \<Rightarrow> Values \<Rightarrow> Values \<Rightarrow> Request" where
  "stubRequest m path query headers =
     \<lparr>Method = m, URLPath = path, URLQuery = query, Header = headers,
      RequestBody = [], Context = Map.empty\<rparr>"

definition stubBody :: ErrorResponse where
  "stubBody = \<lparr>StatusCode = 200, Status = ''success'', err_Message = ''reached'',
               Error = [], Timestamp = []\<rparr>"

definition stubEndpoint :: "User list Handler" where
  "stubEndpoint r w = (Sent 200 (ErrorBody stubBody), w)"

text \<open>A request for the enquiry list: with a role in its context, or with a header.\<close>

definition roleRequest :: "UserRole \<Rightarrow> Request" where
  "roleRequest role =
     \<lparr>Method = ''GET'', URLPath = ''/enquiries'', URLQuery = Map.empty, Header = Map.empty,
      RequestBody = [], Context = [''user_role'' \<mapsto> UserRoleValue role]\<rparr>"

definition authRequest :: "string \<Rightarrow> Request" where
  "authRequest authorization =
     stubRequest ''GET'' ''/enquiries'' Map.empty [''Authorization'' \<mapsto> [authorization]]"

definition errorBody :: "int \<Rightarrow> string \<Rightarrow> string \<Rightarrow> Body" where
  "errorBody code msg detail =
     ErrorBody \<lparr>StatusCode = code, Status = ''error'', err_Message = msg, Error = detail,
                Timestamp = ''2023-11-14T22:13:20Z''\<rparr>"

text \<open>A sign-in request whose body the stand-in decoder reads as email and password.\<close>

definition signInRequest :: "string \<Rightarrow> Request" where
  "signInRequest body =
     \<lparr>Method = ''POST'', URLPath = ''/auth/signin'', URLQuery = Map.empty,
      Header = [''Content-Type'' \<mapsto> [''application/json'']],
      RequestBody = body, Context = Map.empty\<rparr>"

text \<open>A request for the enquiry list with the given query string values.\<close>

definition listRequest :: "(string \<times> string) list \<Rightarrow> Request" where
  "listRequest params =
     stubRequest ''GET'' ''/enquiries'' (map_of (map (\<lambda>(k, v). (k, [v])) params)) Map.empty"

text \<open>
  A store that looks at the filter: three enquiries, newest first, the first created at
  midnight of 16 January 2024 and the other two in the last and the first millisecond of
  15 January 2024. \<open>Find\<close> and \<open>CountDocuments\<close> answer with the enquiries that
  match the filter, both bounds of \<open>created_at\<close> included.
\<close>

definition sampleEnquiry :: "string \<Rightarrow> string \<Rightarrow> DateTime \<Rightarrow> Query" where
  "sampleEnquiry qid ty created =
     \<lparr>QueryID = qid, q_FirstName = ''Ada'', q_LastName = ''Lim'', q_Email = ''ada@x.io'',
      PhoneNumber = [], q_CompanyName = [], q_EnquiryType = ty, q_Message = ''hello'',
      q_CreatedAt = created, q_UpdatedAt = created\<rparr>"

definition sampleEnquiries :: "Query list" where
  "sampleEnquiries =
     [sampleEnquiry ''q3'' ''general'' 1705363200000,
      sampleEnquiry ''q2'' ''general'' 1705363199999,
      sampleEnquiry ''q1'' ''support'' 1705276800000]"

definition storeMatches :: "Filter \<Rightarrow> Query \<Rightarrow> bool" where
  "storeMatches f q =
     ((case enquiry_type f of None \<Rightarrow> True | Some ty \<Rightarrow> q_EnquiryType q = ty) \<and>
      createdAtMatches f (q_CreatedAt q))"

definition filteringDeps :: "User list Deps" where
  "filteringDeps =
     stubDeps
       \<lparr>Enquiries_Find :=
          (\<lambda>users f opts.
             Inr (take (nat (opt_Limit opts))
                    (drop (nat (opt_Skip opts)) (filter (storeMatches f) sampleEnquiries)))),
        Enquiries_CountDocuments :=
          (\<lambda>users f. Inr (int (length (filter (storeMatches f) sampleEnquiries))))\<rparr>"

section \<open>Username derivation\<close>

lemma Split_nonempty: "Split s sep \<noteq> []"
  by (induction s) (auto split: list.splits)

lemma hd_Split: "hd (Split s sep) = takeWhile (\<lambda>c. c \<noteq> sep) s"
  by (induction s) (auto split: list.splits simp: Split_nonempty)

lemma lowerByte_usernameChar: "keepRune c \<Longrightarrow> usernameChar (lowerByte c)"
  unfolding keepRune_def usernameChar_def lowerByte_def Let_def
  by auto

lemma usernameChar_user: "c \<in> set ''user'' \<Longrightarrow> usernameChar c"
  by (auto simp: usernameChar_def)

lemma cleanedLocalPart_chars: "c \<in> set (cleanedLocalPart e) \<Longrightarrow> usernameChar c"
  by (auto simp: cleanedLocalPart_def ToLower_def lowerByte_usernameChar)

lemma GenerateUsernameFromEmail_unfold:
  "GenerateUsernameFromEmail u =
     (if Email u = [] then []
      else if length (cleanedLocalPart (Email u)) < 3 then cleanedLocalPart (Email u) @ ''user''
      else take 30 (cleanedLocalPart (Email u)))"
  by (simp add: GenerateUsernameFromEmail_def Let_def Split_nonempty hd_Split
      cleanedLocalPart_def)

lemma Email_sampleUser: "Email (sampleUser e r p a) = e"
  by (simp add: sampleUser_def)

lemma cleaned_ab: "cleanedLocalPart ''ab@x.com'' = ''ab''"
  by code_simp

lemma cleaned_john: "cleanedLocalPart ''John.Doe123@x.com'' = ''johndoe123''"
  by code_simp

lemma cleaned_dots: "cleanedLocalPart ''.-.@x.com'' = []"
  by code_simp

lemma cleaned_long:
  "cleanedLocalPart ''Very.Long.Mailbox.Name.With.Many.Parts.2024@x.com''
     = ''verylongmailboxnamewithmanyparts2024''"
  by code_simp

text \<open>
  Claim C4, as the code has it. For a non-empty email the derived username is the cleaned,
  lower-cased part before the first \<open>@\<close>, with \<open>user\<close> appended when it is shorter than
  3 characters (so \<open>user\<close> alone when nothing usable remains) and cut to 30 characters
  when it is longer. For the empty email the function returns the empty string, which the
  caller \<open>CreateUser\<close> turns into an error. \<open>ab@x.com\<close> derives \<open>abuser\<close> and
  \<open>John.Doe123@x.com\<close> derives \<open>johndoe123\<close>.
\<close>

theorem username_derivation:
  "(Email u = [] \<longrightarrow> GenerateUsernameFromEmail u = []) \<and>
   (Email u \<noteq> [] \<and> length (cleanedLocalPart (Email u)) < 3 \<longrightarrow>
      GenerateUsernameFromEmail u = cleanedLocalPart (Email u) @ ''user'') \<and>
   (Email u \<noteq> [] \<and> cleanedLocalPart (Email u) = [] \<longrightarrow>
      GenerateUsernameFromEmail u = ''user'') \<and>
   (Email u \<noteq> [] \<and> 3 \<le> length (cleanedLocalPart (Email u)) \<and>
      length (cleanedLocalPart (Email u)) \<le> 30 \<longrightarrow>
      GenerateUsernameFromEmail u = cleanedLocalPart (Email u)) \<and>
   (Email u \<noteq> [] \<and> 30 < length (cleanedLocalPart (Email u)) \<longrightarrow>
      GenerateUsernameFromEmail u = take 30 (cleanedLocalPart (Email u))) \<and>
   (Email u = ''ab@x.com'' \<longrightarrow> GenerateUsernameFromEmail u = ''abuser'') \<and>
   (Email u = ''John.Doe123@x.com'' \<longrightarrow> GenerateUsernameFromEmail u = ''johndoe123'')"
  by (simp add: GenerateUsernameFromEmail_unfold cleaned_ab cleaned_john)

theorem username_derivation_witness:
  "GenerateUsernameFromEmail (sampleUser [] RoleAdmin [] True) = [] \<and>
   GenerateUsernameFromEmail (sampleUser ''ab@x.com'' RoleAdmin [] True) = ''abuser'' \<and>
   GenerateUsernameFromEmail (sampleUser ''.-.@x.com'' RoleAdmin [] True) = ''user'' \<and>
   GenerateUsernameFromEmail (sampleUser ''John.Doe123@x.com'' RoleAdmin [] True)
     = ''johndoe123'' \<and>
   GenerateUsernameFromEmail
     (sampleUser ''Very.Long.Mailbox.Name.With.Many.Parts.2024@x.com'' RoleAdmin [] True)
     = ''verylongmailboxnamewithmanypar''"
  using username_derivation [of "sampleUser [] RoleAdmin [] True"]
    username_derivation [of "sampleUser ''ab@x.com'' RoleAdmin [] True"]
    username_derivation [of "sampleUser ''.-.@x.com'' RoleAdmin [] True"]
    username_derivation [of "sampleUser ''John.Doe123@x.com'' RoleAdmin [] True"]
    username_derivation
      [of "sampleUser ''Very.Long.Mailbox.Name.With.Many.Parts.2024@x.com'' RoleAdmin [] True"]
  by (simp add: Email_sampleUser cleaned_ab cleaned_john cleaned_dots cleaned_long)

text \<open>
  Claim C4 as stated says that the empty email derives \<open>user\<close>. The guard on the first
  line of the function returns the empty string instead.
\<close>

theorem username_empty_email_counterexample:
  "GenerateUsernameFromEmail (sampleUser [] RoleAdmin [] True) \<noteq> ''user''"
  by (simp add: GenerateUsernameFromEmail_def sampleUser_def)

text \<open>
  Claim C10: for every non-empty email the derived username is non-empty, has between 3
  and 30 characters, and consists only of lower-case ASCII letters, digits and underscores.
\<close>

theorem username_shape:
  assumes "Email u \<noteq> []"
  shows "GenerateUsernameFromEmail u \<noteq> [] \<and>
         3 \<le> length (GenerateUsernameFromEmail u) \<and>
         length (GenerateUsernameFromEmail u) \<le> 30 \<and>
         (\<forall>c \<in> set (GenerateUsernameFromEmail u). usernameChar c)"
proof (cases "length (cleanedLocalPart (Email u)) < 3")
  case True
  then have eq: "GenerateUsernameFromEmail u = cleanedLocalPart (Email u) @ ''user''"
    using assms by (simp add: GenerateUsernameFromEmail_unfold)
  show ?thesis unfolding eq using True
    by (auto dest: cleanedLocalPart_chars usernameChar_user simp del: set_simps)
next
  case False
  then have eq: "GenerateUsernameFromEmail u = take 30 (cleanedLocalPart (Email u))"
    using assms by (simp add: GenerateUsernameFromEmail_unfold)
  show ?thesis unfolding eq using False
    by (auto dest: in_set_takeD cleanedLocalPart_chars)
qed

theorem username_shape_witness:
  "Email (sampleUser ''J@x.com'' RoleAdmin [] True) \<noteq> [] \<and>
   GenerateUsernameFromEmail (sampleUser ''J@x.com'' RoleAdmin [] True) \<noteq> [] \<and>
   3 \<le> length (GenerateUsernameFromEmail (sampleUser ''J@x.com'' RoleAdmin [] True)) \<and>
   length (GenerateUsernameFromEmail (sampleUser ''J@x.com'' RoleAdmin [] True)) \<le> 30 \<and>
   list_all usernameChar (GenerateUsernameFromEmail (sampleUser ''J@x.com'' RoleAdmin [] True))"
proof -
  have h: "Email (sampleUser ''J@x.com'' RoleAdmin [] True) \<noteq> []"
    by (simp add: sampleUser_def)
  show ?thesis using h username_shape [OF h] by (simp add: list_all_iff)
qed

section \<open>Token issuance\<close>

lemma Role_consts_distinct: "RoleAdmin \<noteq> RoleSuperAdmin"
  by (simp add: RoleAdmin_def RoleSuperAdmin_def)

lemma NewNumericDate_Add_Hours:
  "NewNumericDate (Add t (k * Hour)) = NewNumericDate t + k * Hour"
proof -
  have "(t + (k * 3600) * Second) mod Second = t mod Second"
    by (rule mod_mult_self1)
  then have "(t + k * Hour) mod Second = t mod Second"
    by (simp add: Hour_def mult.assoc)
  then show ?thesis by (simp add: NewNumericDate_def Add_def)
qed

lemma sendError_eq:
  "sendError deps w code msg detail =
     (Sent code (ErrorBody \<lparr>StatusCode = code, Status = ''error'', err_Message = msg,
        Error = detail, Timestamp = time_Format deps (time_Now deps (ticks w))\<rparr>),
      w\<lparr>ticks := Suc (ticks w)\<rparr>)"
  by (simp add: sendError_def CreateErrorResponse_def Now_def)

lemma GenerateToken_admin:
  assumes "Role user = RoleAdmin"
  shows "GenerateToken deps s user w =
     (jwt_SignedString deps (secretKey s)
        \<lparr>UserID = ID user, claims_Email = Email user, claims_Username = Username user,
         claims_Role = RoleAdmin,
         ExpiresAt = NewNumericDate (time_Now deps (ticks w)) + 48 * Hour,
         IssuedAt = NewNumericDate (time_Now deps (ticks w + 1)),
         NotBefore = NewNumericDate (time_Now deps (ticks w + 2)),
         Issuer = ''rgp-backend-enquiry'', Subject = ID user\<rparr>,
      w\<lparr>ticks := ticks w + 3\<rparr>)"
  using assms by (simp add: GenerateToken_def Now_def NewNumericDate_Add_Hours)

lemma GenerateToken_super:
  assumes "Role user = RoleSuperAdmin"
  shows "GenerateToken deps s user w =
     (jwt_SignedString deps (secretKey s)
        \<lparr>UserID = ID user, claims_Email = Email user, claims_Username = Username user,
         claims_Role = RoleSuperAdmin,
         ExpiresAt = NewNumericDate (time_Now deps (ticks w)) + 720 * Hour,
         IssuedAt = NewNumericDate (time_Now deps (ticks w + 1)),
         NotBefore = NewNumericDate (time_Now deps (ticks w + 2)),
         Issuer = ''rgp-backend-enquiry'', Subject = ID user\<rparr>,
      w\<lparr>ticks := ticks w + 3\<rparr>)"
proof -
  have h: "30 * 24 * Hour = 720 * Hour" by simp
  show ?thesis
    using assms Role_consts_distinct unfolding GenerateToken_def h
    by (simp add: Now_def NewNumericDate_Add_Hours)
qed

lemma GenerateToken_other:
  assumes "Role user \<noteq> RoleAdmin" "Role user \<noteq> RoleSuperAdmin"
  shows "GenerateToken deps s user w = (Inl (ErrorString ''invalid user role''), w)"
  using assms by (simp add: GenerateToken_def)

text \<open>
  Claim C1. \<open>GenerateToken\<close> reads the clock when it is called. For an admin the token is
  the signature of claims whose expires-at is that reading, at the JWT library's precision
  of one second, plus 48 hours; for a super-admin, plus 720 hours. For any other role the
  result is the error \<open>invalid user role\<close>: nothing is signed and the clock is not read.
  The issued-at claim is the next reading of the clock.
\<close>

theorem token_expiry_by_role:
  "(Role user = RoleAdmin \<longrightarrow>
      GenerateToken deps s user w =
        (jwt_SignedString deps (secretKey s)
           \<lparr>UserID = ID user, claims_Email = Email user, claims_Username = Username user,
            claims_Role = RoleAdmin,
            ExpiresAt = NewNumericDate (time_Now deps (ticks w)) + 48 * Hour,
            IssuedAt = NewNumericDate (time_Now deps (ticks w + 1)),
            NotBefore = NewNumericDate (time_Now deps (ticks w + 2)),
            Issuer = ''rgp-backend-enquiry'', Subject = ID user\<rparr>,
         w\<lparr>ticks := ticks w + 3\<rparr>)) \<and>
   (Role user = RoleSuperAdmin \<longrightarrow>
      GenerateToken deps s user w =
        (jwt_SignedString deps (secretKey s)
           \<lparr>UserID = ID user, claims_Email = Email user, claims_Username = Username user,
            claims_Role = RoleSuperAdmin,
            ExpiresAt = NewNumericDate (time_Now deps (ticks w)) + 720 * Hour,
            IssuedAt = NewNumericDate (time_Now deps (ticks w + 1)),
            NotBefore = NewNumericDate (time_Now deps (ticks w + 2)),
            Issuer = ''rgp-backend-enquiry'', Subject = ID user\<rparr>,
         w\<lparr>ticks := ticks w + 3\<rparr>)) \<and>
   (Role user \<noteq> RoleAdmin \<and> Role user \<noteq> RoleSuperAdmin \<longrightarrow>
      GenerateToken deps s user w = (Inl (ErrorString ''invalid user role''), w)) \<and>
   NewNumericDate (Add (time_Now deps (ticks w)) (48 * Hour))
     = NewNumericDate (time_Now deps (ticks w)) + 48 * Hour \<and>
   NewNumericDate (Add (time_Now deps (ticks w)) (720 * Hour))
     = NewNumericDate (time_Now deps (ticks w)) + 720 * Hour"
  using GenerateToken_admin [of user deps s w] GenerateToken_super [of user deps s w]
    GenerateToken_other [of user deps s w]
  by (simp add: NewNumericDate_Add_Hours)

theorem token_expiry_by_role_witness:
  "GenerateToken stubDeps stubService (sampleUser ''ada@x.io'' RoleAdmin [] True) stubWorld
     = (Inr ''hs256.admin'', stubWorld\<lparr>ticks := 3\<rparr>) \<and>
   GenerateToken stubDeps stubService (sampleUser ''bob@x.io'' RoleSuperAdmin [] True) stubWorld
     = (Inr ''hs256.super-admin'', stubWorld\<lparr>ticks := 3\<rparr>) \<and>
   GenerateToken stubDeps stubService (sampleUser ''eve@x.io'' ''guest'' [] True) stubWorld
     = (Inl (ErrorString ''invalid user role''), stubWorld) \<and>
   NewNumericDate (time_Now stubDeps (ticks stubWorld)) + 48 * Hour = 1700172800000000000 \<and>
   NewNumericDate (time_Now stubDeps (ticks stubWorld)) + 720 * Hour = 1702592000000000000"
  using token_expiry_by_role
      [of "sampleUser ''ada@x.io'' RoleAdmin [] True" stubDeps stubService stubWorld]
    token_expiry_by_role
      [of "sampleUser ''bob@x.io'' RoleSuperAdmin [] True" stubDeps stubService stubWorld]
    token_expiry_by_role
      [of "sampleUser ''eve@x.io'' ''guest'' [] True" stubDeps stubService stubWorld]
  by (simp add: sampleUser_def stubDeps_def stubService_def stubWorld_def RoleAdmin_def
      RoleSuperAdmin_def NewNumericDate_def Hour_def Second_def)

section \<open>Authentication and role checks\<close>

lemma Get_absent: "vs key = None \<Longrightarrow> Get vs key = []"
  by (simp add: Get_def)

lemma HasPrefix_Bearer_nonempty: "HasPrefix h ''Bearer '' \<Longrightarrow> h \<noteq> []"
  by (auto simp: HasPrefix_def)

lemma AuthMiddleware_missing:
  assumes "Get (Header r) ''Authorization'' = []"
  shows "AuthMiddleware deps js next r w =
     (Sent 401 (ErrorBody \<lparr>StatusCode = 401, Status = ''error'',
        err_Message = ''Authorization header missing'', Error = ''Bearer token is required'',
        Timestamp = time_Format deps (time_Now deps (ticks w))\<rparr>),
      w\<lparr>ticks := Suc (ticks w)\<rparr>)"
  using assms by (simp add: AuthMiddleware_def sendError_eq StatusUnauthorized_def)

lemma AuthMiddleware_bad_format:
  assumes "Get (Header r) ''Authorization'' \<noteq> []"
    and "\<not> HasPrefix (Get (Header r) ''Authorization'') ''Bearer ''"
  shows "AuthMiddleware deps js next r w =
     (Sent 401 (ErrorBody \<lparr>StatusCode = 401, Status = ''error'',
        err_Message = ''Invalid authorization format'',
        Error = ''Authorization header must be '' @ [CHR 0x27] @ ''Bearer <token>'' @ [CHR 0x27],
        Timestamp = time_Format deps (time_Now deps (ticks w))\<rparr>),
      w\<lparr>ticks := Suc (ticks w)\<rparr>)"
  using assms by (simp add: AuthMiddleware_def sendError_eq StatusUnauthorized_def)

lemma AuthMiddleware_invalid:
  assumes "HasPrefix (Get (Header r) ''Authorization'') ''Bearer ''"
    and "ValidateToken deps js (TrimPrefix (Get (Header r) ''Authorization'') ''Bearer '') = Inl e"
  shows "AuthMiddleware deps js next r w =
     (Sent 401 (ErrorBody \<lparr>StatusCode = 401, Status = ''error'',
        err_Message = ''Invalid token'', Error = ''Token is expired or invalid'',
        Timestamp = time_Format deps (time_Now deps (ticks w))\<rparr>),
      w\<lparr>ticks := Suc (ticks w)\<rparr>)"
  using assms HasPrefix_Bearer_nonempty [OF assms(1)]
  by (simp add: AuthMiddleware_def sendError_eq StatusUnauthorized_def)

lemma AuthMiddleware_valid:
  assumes "HasPrefix (Get (Header r) ''Authorization'') ''Bearer ''"
    and "ValidateToken deps js (TrimPrefix (Get (Header r) ''Authorization'') ''Bearer '') = Inr claims"
  shows "AuthMiddleware deps js next r w =
     next (r\<lparr>Context := (Context r)
              (''user_id'' \<mapsto> StringValue (UserID claims),
               ''user_email'' \<mapsto> StringValue (claims_Email claims),
               ''user_role'' \<mapsto> UserRoleValue (claims_Role claims),
               ''user_username'' \<mapsto> StringValue (claims_Username claims))\<rparr>) w"
  using assms HasPrefix_Bearer_nonempty [OF assms(1)]
  by (simp add: AuthMiddleware_def)

lemma RoleMiddleware_accept:
  assumes "Context r ''user_role'' = Some (UserRoleValue role)"
    and "role = required \<or> role = RoleSuperAdmin"
  shows "RoleMiddleware deps required next r w = next r w"
  using assms by (auto simp: RoleMiddleware_def)

lemma RoleMiddleware_reject:
  assumes "Context r ''user_role'' = Some (UserRoleValue role)"
    and "role \<noteq> required" "role \<noteq> RoleSuperAdmin"
  shows "RoleMiddleware deps required next r w =
     (Sent 403 (ErrorBody \<lparr>StatusCode = 403, Status = ''error'',
        err_Message = ''Insufficient permissions'',
        Error = ''Access denied: insufficient role permissions'',
        Timestamp = time_Format deps (time_Now deps (ticks w))\<rparr>),
      w\<lparr>ticks := Suc (ticks w)\<rparr>)"
  using assms by (simp add: RoleMiddleware_def sendError_eq StatusForbidden_def)

lemma AdminOrSuperAdminMiddleware_accept:
  assumes "Context r ''user_role'' = Some (UserRoleValue role)"
    and "role = RoleAdmin \<or> role = RoleSuperAdmin"
  shows "AdminOrSuperAdminMiddleware deps next r w = next r w"
  using assms by (auto simp: AdminOrSuperAdminMiddleware_def)

lemma AdminOrSuperAdminMiddleware_reject:
  assumes "Context r ''user_role'' = Some (UserRoleValue role)"
    and "role \<noteq> RoleAdmin" "role \<noteq> RoleSuperAdmin"
  shows "AdminOrSuperAdminMiddleware deps next r w =
     (Sent 403 (ErrorBody \<lparr>StatusCode = 403, Status = ''error'',
        err_Message = ''Insufficient permissions'',
        Error = ''Access denied: admin or super-admin role required'',
        Timestamp = time_Format deps (time_Now deps (ticks w))\<rparr>),
      w\<lparr>ticks := Suc (ticks w)\<rparr>)"
  using assms by (simp add: AdminOrSuperAdminMiddleware_def sendError_eq StatusForbidden_def)

lemma RoleMiddleware_forwards_iff:
  assumes "Context r ''user_role'' = Some (UserRoleValue role)"
  shows "(\<forall>next. RoleMiddleware deps required next r w = next r w)
           = (role = required \<or> role = RoleSuperAdmin)"
proof
  assume fw: "\<forall>next. RoleMiddleware deps required next r w = next r w"
  show "role = required \<or> role = RoleSuperAdmin"
  proof (rule ccontr)
    assume "\<not> (role = required \<or> role = RoleSuperAdmin)"
    then have h: "role \<noteq> required" "role \<noteq> RoleSuperAdmin" by simp_all
    have "RoleMiddleware deps required (\<lambda>r w. (Sent 200 (ErrorBody e), w)) r w
            \<noteq> (\<lambda>r w. (Sent 200 (ErrorBody e), w)) r w"
      by (simp add: RoleMiddleware_reject [OF assms h])
    with fw show False by blast
  qed
next
  assume "role = required \<or> role = RoleSuperAdmin"
  with assms show "\<forall>next. RoleMiddleware deps required next r w = next r w"
    by (simp add: RoleMiddleware_accept)
qed

lemma AdminOrSuperAdminMiddleware_forwards_iff:
  assumes "Context r ''user_role'' = Some (UserRoleValue role)"
  shows "(\<forall>next. AdminOrSuperAdminMiddleware deps next r w = next r w)
           = (role = RoleAdmin \<or> role = RoleSuperAdmin)"
proof
  assume fw: "\<forall>next. AdminOrSuperAdminMiddleware deps next r w = next r w"
  show "role = RoleAdmin \<or> role = RoleSuperAdmin"
  proof (rule ccontr)
    assume "\<not> (role = RoleAdmin \<or> role = RoleSuperAdmin)"
    then have h: "role \<noteq> RoleAdmin" "role \<noteq> RoleSuperAdmin" by simp_all
    have "AdminOrSuperAdminMiddleware deps (\<lambda>r w. (Sent 200 (ErrorBody e), w)) r w
            \<noteq> (\<lambda>r w. (Sent 200 (ErrorBody e), w)) r w"
      by (simp add: AdminOrSuperAdminMiddleware_reject [OF assms h])
    with fw show False by blast
  qed
next
  assume "role = RoleAdmin \<or> role = RoleSuperAdmin"
  with assms show "\<forall>next. AdminOrSuperAdminMiddleware deps next r w = next r w"
    by (simp add: AdminOrSuperAdminMiddleware_accept)
qed

text \<open>The middleware of \<open>SetupRoutes\<close> on a protected path with a token that validates.\<close>

lemma routerUse_protected:
  assumes "Method r \<noteq> ''OPTIONS''"
    and "URLPath r \<notin> {''/'', ''/enquiry'', ''/create-user'', ''/auth/signin'', ''/auth/login'',
           ''/health''}"
  shows "routerUse deps js next r w =
           AuthMiddleware deps js (AdminOrSuperAdminMiddleware deps next) r w"
  using assms by (simp add: routerUse_def)

lemma routerUse_unrecognized_role:
  assumes "Method r \<noteq> ''OPTIONS''"
    and "URLPath r \<notin> {''/'', ''/enquiry'', ''/create-user'', ''/auth/signin'', ''/auth/login'',
           ''/health''}"
    and "HasPrefix (Get (Header r) ''Authorization'') ''Bearer ''"
    and "ValidateToken deps js (TrimPrefix (Get (Header r) ''Authorization'') ''Bearer '')
           = Inr claims"
    and "claims_Role claims \<noteq> RoleAdmin" "claims_Role claims \<noteq> RoleSuperAdmin"
  shows "routerUse deps js next r w =
     (Sent 403 (ErrorBody \<lparr>StatusCode = 403, Status = ''error'',
        err_Message = ''Insufficient permissions'',
        Error = ''Access denied: admin or super-admin role required'',
        Timestamp = time_Format deps (time_Now deps (ticks w))\<rparr>),
      w\<lparr>ticks := Suc (ticks w)\<rparr>)"
proof -
  let ?r' = "r\<lparr>Context := (Context r)
              (''user_id'' \<mapsto> StringValue (UserID claims),
               ''user_email'' \<mapsto> StringValue (claims_Email claims),
               ''user_role'' \<mapsto> UserRoleValue (claims_Role claims),
               ''user_username'' \<mapsto> StringValue (claims_Username claims))\<rparr>"
  have ctx: "Context ?r' ''user_role'' = Some (UserRoleValue (claims_Role claims))"
    by simp
  have "routerUse deps js next r w = AdminOrSuperAdminMiddleware deps next ?r' w"
    by (simp only: routerUse_protected [OF assms(1,2)] AuthMiddleware_valid [OF assms(3,4)])
  then show ?thesis
    by (simp only: AdminOrSuperAdminMiddleware_reject [OF ctx assms(5,6)])
qed

text \<open>
  Claim C2. With a role attached to the request, the general role check forwards the
  request exactly when the role is the required one or super-admin, and answers 403
  otherwise; the admin-or-super-admin check forwards exactly when the role is admin or
  super-admin, and answers 403 otherwise. So on a protected path a token that validates
  but carries any other role string is answered with 403.
\<close>

theorem role_check:
  "(Context r ''user_role'' = Some (UserRoleValue role) \<longrightarrow>
      ((\<forall>next. RoleMiddleware deps required next r w = next r w)
         = (role = required \<or> role = RoleSuperAdmin)) \<and>
      ((\<forall>next. AdminOrSuperAdminMiddleware deps next r w = next r w)
         = (role = RoleAdmin \<or> role = RoleSuperAdmin))) \<and>
   (Context r ''user_role'' = Some (UserRoleValue role) \<and>
      role \<noteq> required \<and> role \<noteq> RoleSuperAdmin \<longrightarrow>
      RoleMiddleware deps required next r w =
        (Sent 403 (ErrorBody \<lparr>StatusCode = 403, Status = ''error'',
           err_Message = ''Insufficient permissions'',
           Error = ''Access denied: insufficient role permissions'',
           Timestamp = time_Format deps (time_Now deps (ticks w))\<rparr>),
         w\<lparr>ticks := Suc (ticks w)\<rparr>)) \<and>
   (Context r ''user_role'' = Some (UserRoleValue role) \<and>
      role \<noteq> RoleAdmin \<and> role \<noteq> RoleSuperAdmin \<longrightarrow>
      AdminOrSuperAdminMiddleware deps next r w =
        (Sent 403 (ErrorBody \<lparr>StatusCode = 403, Status = ''error'',
           err_Message = ''Insufficient permissions'',
           Error = ''Access denied: admin or super-admin role required'',
           Timestamp = time_Format deps (time_Now deps (ticks w))\<rparr>),
         w\<lparr>ticks := Suc (ticks w)\<rparr>)) \<and>
   (Method r \<noteq> ''OPTIONS'' \<and>
      URLPath r \<notin> {''/'', ''/enquiry'', ''/create-user'', ''/auth/signin'', ''/auth/login'',
        ''/health''} \<and>
      HasPrefix (Get (Header r) ''Authorization'') ''Bearer '' \<and>
      ValidateToken deps js (TrimPrefix (Get (Header r) ''Authorization'') ''Bearer '')
        = Inr claims \<and>
      claims_Role claims \<noteq> RoleAdmin \<and> claims_Role claims \<noteq> RoleSuperAdmin \<longrightarrow>
      routerUse deps js next r w =
        (Sent 403 (ErrorBody \<lparr>StatusCode = 403, Status = ''error'',
           err_Message = ''Insufficient permissions'',
           Error = ''Access denied: admin or super-admin role required'',
           Timestamp = time_Format deps (time_Now deps (ticks w))\<rparr>),
         w\<lparr>ticks := Suc (ticks w)\<rparr>))"
proof (intro conjI impI)
  assume "Context r ''user_role'' = Some (UserRoleValue role)"
  then show "(\<forall>next. RoleMiddleware deps required next r w = next r w)
         = (role = required \<or> role = RoleSuperAdmin)"
    by (rule RoleMiddleware_forwards_iff)
next
  assume "Context r ''user_role'' = Some (UserRoleValue role)"
  then show "(\<forall>next. AdminOrSuperAdminMiddleware deps next r w = next r w)
         = (role = RoleAdmin \<or> role = RoleSuperAdmin)"
    by (rule AdminOrSuperAdminMiddleware_forwards_iff)
next
  assume "Context r ''user_role'' = Some (UserRoleValue role) \<and>
      role \<noteq> required \<and> role \<noteq> RoleSuperAdmin"
  then show "RoleMiddleware deps required next r w =
        (Sent 403 (ErrorBody \<lparr>StatusCode = 403, Status = ''error'',
           err_Message = ''Insufficient permissions'',
           Error = ''Access denied: insufficient role permissions'',
           Timestamp = time_Format deps (time_Now deps (ticks w))\<rparr>),
         w\<lparr>ticks := Suc (ticks w)\<rparr>)"
    by (simp add: RoleMiddleware_reject)
next
  assume "Context r ''user_role'' = Some (UserRoleValue role) \<and>
      role \<noteq> RoleAdmin \<and> role \<noteq> RoleSuperAdmin"
  then show "AdminOrSuperAdminMiddleware deps next r w =
        (Sent 403 (ErrorBody \<lparr>StatusCode = 403, Status = ''error'',
           err_Message = ''Insufficient permissions'',
           Error = ''Access denied: admin or super-admin role required'',
           Timestamp = time_Format deps (time_Now deps (ticks w))\<rparr>),
         w\<lparr>ticks := Suc (ticks w)\<rparr>)"
    by (simp add: AdminOrSuperAdminMiddleware_reject)
next
  assume a: "Method r \<noteq> ''OPTIONS'' \<and>
      URLPath r \<notin> {''/'', ''/enquiry'', ''/create-user'', ''/auth/signin'', ''/auth/login'',
        ''/health''} \<and>
      HasPrefix (Get (Header r) ''Authorization'') ''Bearer '' \<and>
      ValidateToken deps js (TrimPrefix (Get (Header r) ''Authorization'') ''Bearer '')
        = Inr claims \<and>
      claims_Role claims \<noteq> RoleAdmin \<and> claims_Role claims \<noteq> RoleSuperAdmin"
  show "routerUse deps js next r w =
        (Sent 403 (ErrorBody \<lparr>StatusCode = 403, Status = ''error'',
           err_Message = ''Insufficient permissions'',
           Error = ''Access denied: admin or super-admin role required'',
           Timestamp = time_Format deps (time_Now deps (ticks w))\<rparr>),
         w\<lparr>ticks := Suc (ticks w)\<rparr>)"
    using a by (intro routerUse_unrecognized_role [where claims = claims]) simp_all
qed

theorem role_check_witness:
  "RoleMiddleware stubDeps RoleAdmin stubEndpoint (roleRequest ''admin'') stubWorld
     = stubEndpoint (roleRequest ''admin'') stubWorld \<and>
   RoleMiddleware stubDeps RoleAdmin stubEndpoint (roleRequest ''super-admin'') stubWorld
     = stubEndpoint (roleRequest ''super-admin'') stubWorld \<and>
   AdminOrSuperAdminMiddleware stubDeps stubEndpoint (roleRequest ''admin'') stubWorld
     = stubEndpoint (roleRequest ''admin'') stubWorld \<and>
   fst (RoleMiddleware stubDeps RoleAdmin stubEndpoint (roleRequest ''guest'') stubWorld)
     = Sent 403 (errorBody 403 ''Insufficient permissions''
         ''Access denied: insufficient role permissions'') \<and>
   fst (AdminOrSuperAdminMiddleware stubDeps stubEndpoint (roleRequest ''guest'') stubWorld)
     = Sent 403 (errorBody 403 ''Insufficient permissions''
         ''Access denied: admin or super-admin role required'') \<and>
   fst (routerUse stubDeps stubService stubEndpoint (authRequest ''Bearer hs256.guest'')
          stubWorld)
     = Sent 403 (errorBody 403 ''Insufficient permissions''
         ''Access denied: admin or super-admin role required'')"
proof -
  have v: "ValidateToken stubDeps stubService
             (TrimPrefix (Get (Header (authRequest ''Bearer hs256.guest'')) ''Authorization'')
                ''Bearer '')
           = Inr (stubClaims ''guest'')"
    by (simp add: ValidateToken_def stubDeps_def stubParse_def keyFunc_def authRequest_def
        stubRequest_def Get_def TrimPrefix_def HasPrefix_def)
  have p: "HasPrefix (Get (Header (authRequest ''Bearer hs256.guest'')) ''Authorization'')
             ''Bearer ''"
    by (simp add: authRequest_def stubRequest_def Get_def HasPrefix_def)
  have t: "time_Format stubDeps (time_Now stubDeps (ticks stubWorld)) = ''2023-11-14T22:13:20Z''"
    by (simp add: stubDeps_def)
  show ?thesis
    using role_check [of "roleRequest ''admin''" "''admin''" stubDeps RoleAdmin stubWorld
        stubEndpoint stubService "stubClaims ''guest''"]
      role_check [of "roleRequest ''super-admin''" "''super-admin''" stubDeps RoleAdmin
        stubWorld stubEndpoint stubService "stubClaims ''guest''"]
      role_check [of "roleRequest ''guest''" "''guest''" stubDeps RoleAdmin stubWorld
        stubEndpoint stubService "stubClaims ''guest''"]
      role_check [of "authRequest ''Bearer hs256.guest''" "''guest''" stubDeps RoleAdmin
        stubWorld stubEndpoint stubService "stubClaims ''guest''"] v p
    by (simp add: roleRequest_def RoleAdmin_def RoleSuperAdmin_def errorBody_def t
        authRequest_def stubRequest_def stubClaims_def)
qed

text \<open>
  Claim C3. \<open>Header.Get\<close> reports an absent header as the empty string. With no
  \<open>Authorization\<close> header the request is answered 401 (header missing); with a header
  that does not start with \<open>Bearer \<close> it is answered 401 (invalid format); when the
  token after the prefix fails \<open>ValidateToken\<close> it is answered 401 (invalid token);
  otherwise the user id, email, role and username of the claims are stored in the request
  context and the request is passed to the next handler.
\<close>

theorem authentication_stage:
  "(Header r ''Authorization'' = None \<longrightarrow> Get (Header r) ''Authorization'' = []) \<and>
   (Get (Header r) ''Authorization'' = [] \<longrightarrow>
      AuthMiddleware deps js next r w =
        (Sent 401 (ErrorBody \<lparr>StatusCode = 401, Status = ''error'',
           err_Message = ''Authorization header missing'', Error = ''Bearer token is required'',
           Timestamp = time_Format deps (time_Now deps (ticks w))\<rparr>),
         w\<lparr>ticks := Suc (ticks w)\<rparr>)) \<and>
   (Get (Header r) ''Authorization'' \<noteq> [] \<and>
      \<not> HasPrefix (Get (Header r) ''Authorization'') ''Bearer '' \<longrightarrow>
      AuthMiddleware deps js next r w =
        (Sent 401 (ErrorBody \<lparr>StatusCode = 401, Status = ''error'',
           err_Message = ''Invalid authorization format'',
           Error = ''Authorization header must be '' @ [CHR 0x27] @ ''Bearer <token>''
                     @ [CHR 0x27],
           Timestamp = time_Format deps (time_Now deps (ticks w))\<rparr>),
         w\<lparr>ticks := Suc (ticks w)\<rparr>)) \<and>
   (HasPrefix (Get (Header r) ''Authorization'') ''Bearer '' \<and>
      ValidateToken deps js (TrimPrefix (Get (Header r) ''Authorization'') ''Bearer '') = Inl e
      \<longrightarrow>
      AuthMiddleware deps js next r w =
        (Sent 401 (ErrorBody \<lparr>StatusCode = 401, Status = ''error'',
           err_Message = ''Invalid token'', Error = ''Token is expired or invalid'',
           Timestamp = time_Format deps (time_Now deps (ticks w))\<rparr>),
         w\<lparr>ticks := Suc (ticks w)\<rparr>)) \<and>
   (HasPrefix (Get (Header r) ''Authorization'') ''Bearer '' \<and>
      ValidateToken deps js (TrimPrefix (Get (Header r) ''Authorization'') ''Bearer '')
        = Inr claims
      \<longrightarrow>
      AuthMiddleware deps js next r w =
        next (r\<lparr>Context := (Context r)
                 (''user_id'' \<mapsto> StringValue (UserID claims),
                  ''user_email'' \<mapsto> StringValue (claims_Email claims),
                  ''user_role'' \<mapsto> UserRoleValue (claims_Role claims),
                  ''user_username'' \<mapsto> StringValue (claims_Username claims))\<rparr>) w)"
  using AuthMiddleware_missing [of r deps js "next" w]
    AuthMiddleware_bad_format [of r deps js "next" w]
    AuthMiddleware_invalid [of r deps js e "next" w]
    AuthMiddleware_valid [of r deps js claims "next" w]
    Get_absent [of "Header r" "''Authorization''"]
  by blast

theorem authentication_stage_witness:
  "fst (AuthMiddleware stubDeps stubService stubEndpoint
          (stubRequest ''GET'' ''/enquiries'' Map.empty Map.empty) stubWorld)
     = Sent 401 (errorBody 401 ''Authorization header missing'' ''Bearer token is required'') \<and>
   fst (AuthMiddleware stubDeps stubService stubEndpoint (authRequest ''Basic dXNlcg=='')
          stubWorld)
     = Sent 401 (errorBody 401 ''Invalid authorization format''
         (''Authorization header must be '' @ [CHR 0x27] @ ''Bearer <token>'' @ [CHR 0x27])) \<and>
   fst (AuthMiddleware stubDeps stubService stubEndpoint (authRequest ''Bearer garbage'')
          stubWorld)
     = Sent 401 (errorBody 401 ''Invalid token'' ''Token is expired or invalid'') \<and>
   AuthMiddleware stubDeps stubService stubEndpoint (authRequest ''Bearer hs256.admin'')
          stubWorld
     = stubEndpoint
         ((authRequest ''Bearer hs256.admin'')
            \<lparr>Context :=
               [''user_id'' \<mapsto> StringValue ''65a4f0c2e1b2a3c4d5e6f701'',
                ''user_email'' \<mapsto> StringValue ''ada@x.io'',
                ''user_role'' \<mapsto> UserRoleValue ''admin'',
                ''user_username'' \<mapsto> StringValue ''ada'']\<rparr>) stubWorld"
proof -
  have v: "ValidateToken stubDeps stubService
             (TrimPrefix (Get (Header (authRequest ''Bearer hs256.admin'')) ''Authorization'')
                ''Bearer '')
           = Inr (stubClaims ''admin'')"
    by (simp add: ValidateToken_def stubDeps_def stubParse_def keyFunc_def authRequest_def
        stubRequest_def Get_def TrimPrefix_def HasPrefix_def)
  have g: "ValidateToken stubDeps stubService
             (TrimPrefix (Get (Header (authRequest ''Bearer garbage'')) ''Authorization'')
                ''Bearer '')
           = Inl (ErrorString ''token is malformed'')"
    by (simp add: ValidateToken_def stubDeps_def stubParse_def keyFunc_def authRequest_def
        stubRequest_def Get_def TrimPrefix_def HasPrefix_def)
  have p: "HasPrefix (Get (Header (authRequest ''Bearer hs256.admin'')) ''Authorization'')
             ''Bearer ''"
      "HasPrefix (Get (Header (authRequest ''Bearer garbage'')) ''Authorization'') ''Bearer ''"
      "\<not> HasPrefix (Get (Header (authRequest ''Basic dXNlcg=='')) ''Authorization'')
             ''Bearer ''"
      "Get (Header (authRequest ''Basic dXNlcg=='')) ''Authorization'' \<noteq> []"
      "Get (Header (stubRequest ''GET'' ''/enquiries'' Map.empty Map.empty)) ''Authorization''
         = []"
    by (simp_all add: authRequest_def stubRequest_def Get_def HasPrefix_def)
  have t: "time_Format stubDeps (time_Now stubDeps (ticks stubWorld)) = ''2023-11-14T22:13:20Z''"
    by (simp add: stubDeps_def)
  have c: "Context (authRequest ''Bearer hs256.admin'') = Map.empty"
    by (simp add: authRequest_def stubRequest_def)
  show ?thesis
    using authentication_stage [of "stubRequest ''GET'' ''/enquiries'' Map.empty Map.empty"
        stubDeps stubService stubEndpoint stubWorld "ErrorString ''token is malformed''"
        "stubClaims ''admin''"]
      authentication_stage [of "authRequest ''Basic dXNlcg==''"
        stubDeps stubService stubEndpoint stubWorld "ErrorString ''token is malformed''"
        "stubClaims ''admin''"]
      authentication_stage [of "authRequest ''Bearer garbage''"
        stubDeps stubService stubEndpoint stubWorld "ErrorString ''token is malformed''"
        "stubClaims ''admin''"]
      authentication_stage [of "authRequest ''Bearer hs256.admin''"
        stubDeps stubService stubEndpoint stubWorld "ErrorString ''token is malformed''"
        "stubClaims ''admin''"]
    by (simp add: v g p t c errorBody_def stubClaims_def)
qed

section \<open>Passwords\<close>

text \<open>
  Claim C9, as the code has it. \<open>HashPassword\<close> has no check of its own: it returns
  the error of the hashing primitive when there is one, and otherwise stores the hash and
  returns no error, whatever the plaintext. \<open>CheckPassword\<close> returns a boolean: false
  when the primitive reports a mismatch (or any other error), true when it reports none.
\<close>

theorem password_hash_and_check:
  "(bcrypt_GenerateFromPassword deps (Password u) = Inl e \<longrightarrow>
      HashPassword deps u = (Some e, u)) \<and>
   (bcrypt_GenerateFromPassword deps (Password u) = Inr h \<longrightarrow>
      HashPassword deps u = (None, u\<lparr>Password := h\<rparr>)) \<and>
   (bcrypt_CompareHashAndPassword deps (Password u) p = Some e \<longrightarrow>
      CheckPassword deps u p = False) \<and>
   (bcrypt_CompareHashAndPassword deps (Password u) p = None \<longrightarrow>
      CheckPassword deps u p = True)"
  by (simp add: HashPassword_def CheckPassword_def)

theorem password_hash_and_check_witness:
  "HashPassword stubDeps (sampleUser ''ada@x.io'' RoleAdmin (replicate 73 (CHR ''a'')) True)
     = (Some (ErrorString ''bcrypt: password length exceeds 72 bytes''),
        sampleUser ''ada@x.io'' RoleAdmin (replicate 73 (CHR ''a'')) True) \<and>
   HashPassword stubDeps (sampleUser ''ada@x.io'' RoleAdmin ''correct-horse'' True)
     = (None, sampleUser ''ada@x.io'' RoleAdmin ''$2a$10$correct-horse'' True) \<and>
   CheckPassword stubDeps (sampleUser ''ada@x.io'' RoleAdmin ''$2a$10$correct-horse'' True)
     ''wrong'' = False \<and>
   CheckPassword stubDeps (sampleUser ''ada@x.io'' RoleAdmin ''$2a$10$correct-horse'' True)
     ''correct-horse'' = True"
  using password_hash_and_check
      [of stubDeps "sampleUser ''ada@x.io'' RoleAdmin (replicate 73 (CHR ''a'')) True"
        "ErrorString ''bcrypt: password length exceeds 72 bytes''" "[]" "[]"]
    password_hash_and_check
      [of stubDeps "sampleUser ''ada@x.io'' RoleAdmin ''correct-horse'' True"
        "ErrorString []" "''$2a$10$correct-horse''" "[]"]
    password_hash_and_check
      [of stubDeps "sampleUser ''ada@x.io'' RoleAdmin ''$2a$10$correct-horse'' True"
        "ErrorString ''hashedPassword is not the hash of the given password''" "[]"
        "''wrong''"]
    password_hash_and_check
      [of stubDeps "sampleUser ''ada@x.io'' RoleAdmin ''$2a$10$correct-horse'' True"
        "ErrorString []" "[]" "''correct-horse''"]
  by (simp add: stubDeps_def sampleUser_def)

text \<open>
  Claim C9 as stated says that hashing fails on the empty plaintext. With a primitive
  that, like bcrypt, hashes the empty password, \<open>HashPassword\<close> returns no error.
\<close>

theorem hash_empty_password_counterexample:
  "fst (HashPassword stubDeps (sampleUser ''ada@x.io'' RoleAdmin [] True)) = None"
  by (simp add: HashPassword_def stubDeps_def sampleUser_def)

section \<open>Sign-in\<close>

lemma AuthenticateUser_not_found:
  assumes "Users_FindOne deps (db w) (ByEmail email) = Inl ErrNoDocuments"
  shows "AuthenticateUser deps w email password = (Inl (AuthErrorPtr ErrUserNotFound), w)"
  using assms by (simp add: AuthenticateUser_def GetUserByEmail_def)

lemma AuthenticateUser_deactivated:
  assumes "Users_FindOne deps (db w) (ByEmail email) = Inr user" and "\<not> IsActive user"
  shows "AuthenticateUser deps w email password
           = (Inl (AuthErrorPtr ErrAccountDeactivated), w)"
  using assms by (simp add: AuthenticateUser_def GetUserByEmail_def)

lemma AuthenticateUser_wrong_password:
  assumes "Users_FindOne deps (db w) (ByEmail email) = Inr user" and "IsActive user"
    and "bcrypt_CompareHashAndPassword deps (Password user) password = Some e"
  shows "AuthenticateUser deps w email password = (Inl (AuthErrorPtr ErrInvalidPassword), w)"
  using assms by (simp add: AuthenticateUser_def GetUserByEmail_def CheckPassword_def)

lemma SignIn_auth_error:
  assumes "Method r = ''POST''"
    and "HasPrefix (Get (Header r) ''Content-Type'') ''application/json''"
    and "json_DecodeSignIn deps (RequestBody r) = Inr req"
    and "req_Email req \<noteq> []" "req_Password req \<noteq> []"
    and "Contains (req_Email req) (CHR ''@'')" "Contains (req_Email req) (CHR ''.'')"
    and "AuthenticateUser deps w (req_Email req) (req_Password req)
           = (Inl (AuthErrorPtr a), w)"
  shows "SignIn deps s r w =
     (if Type a = ''user_not_found'' then
        sendError deps w 401 ''Email not found'' (Details a)
      else if Type a = ''invalid_password'' then
        sendError deps w 401 ''Wrong password'' (Details a)
      else if Type a = ''account_deactivated'' then
        sendError deps w 403 ''Account deactivated'' (Details a)
      else sendError deps w 500 ''Sign-in failed''
             ''An unexpected error occurred. Please try again later.'')"
  using assms
  by (simp add: SignIn_def SignInUser_def StatusUnauthorized_def StatusForbidden_def
      StatusInternalServerError_def)

text \<open>
  Claim C8, as the code has it. For a sign-in request that passes the handler's checks
  (POST, JSON content type, a body that decodes, non-empty email and password, an email
  with \<open>@\<close> and a dot): when the store has no user with the email the answer is 401
  \<open>Email not found\<close>; when it has an active user whose password does not match, the
  answer is 401 \<open>Wrong password\<close>, a different body; when the user is deactivated the
  answer is 403 \<open>Account deactivated\<close>, whatever the password.
\<close>

theorem signin_failures:
  assumes "Method r = ''POST''"
    and "HasPrefix (Get (Header r) ''Content-Type'') ''application/json''"
    and "json_DecodeSignIn deps (RequestBody r) = Inr req"
    and "req_Email req \<noteq> []" and "req_Password req \<noteq> []"
    and "Contains (req_Email req) (CHR ''@'')" and "Contains (req_Email req) (CHR ''.'')"
  shows
    "(Users_FindOne deps (db w) (ByEmail (req_Email req)) = Inl ErrNoDocuments \<longrightarrow>
        SignIn deps s r w =
          (Sent 401 (ErrorBody \<lparr>StatusCode = 401, Status = ''error'',
             err_Message = ''Email not found'',
             Error = ''No user exists with this email address'',
             Timestamp = time_Format deps (time_Now deps (ticks w))\<rparr>),
           w\<lparr>ticks := Suc (ticks w)\<rparr>)) \<and>
     (Users_FindOne deps (db w) (ByEmail (req_Email req)) = Inr user \<and> IsActive user \<and>
        bcrypt_CompareHashAndPassword deps (Password user) (req_Password req) = Some e \<longrightarrow>
        SignIn deps s r w =
          (Sent 401 (ErrorBody \<lparr>StatusCode = 401, Status = ''error'',
             err_Message = ''Wrong password'',
             Error = ''The password you entered is incorrect'',
             Timestamp = time_Format deps (time_Now deps (ticks w))\<rparr>),
           w\<lparr>ticks := Suc (ticks w)\<rparr>)) \<and>
     (Users_FindOne deps (db w) (ByEmail (req_Email req)) = Inr user \<and> \<not> IsActive user \<longrightarrow>
        SignIn deps s r w =
          (Sent 403 (ErrorBody \<lparr>StatusCode = 403, Status = ''error'',
             err_Message = ''Account deactivated'',
             Error = ''Your account has been deactivated. Please contact support'',
             Timestamp = time_Format deps (time_Now deps (ticks w))\<rparr>),
           w\<lparr>ticks := Suc (ticks w)\<rparr>))"
proof (intro conjI impI)
  assume "Users_FindOne deps (db w) (ByEmail (req_Email req)) = Inl ErrNoDocuments"
  then have "AuthenticateUser deps w (req_Email req) (req_Password req)
               = (Inl (AuthErrorPtr ErrUserNotFound), w)"
    by (rule AuthenticateUser_not_found)
  from SignIn_auth_error [OF assms this]
  show "SignIn deps s r w =
          (Sent 401 (ErrorBody \<lparr>StatusCode = 401, Status = ''error'',
             err_Message = ''Email not found'',
             Error = ''No user exists with this email address'',
             Timestamp = time_Format deps (time_Now deps (ticks w))\<rparr>),
           w\<lparr>ticks := Suc (ticks w)\<rparr>)"
    by (simp add: ErrUserNotFound_def sendError_eq)
next
  assume "Users_FindOne deps (db w) (ByEmail (req_Email req)) = Inr user \<and> IsActive user \<and>
        bcrypt_CompareHashAndPassword deps (Password user) (req_Password req) = Some e"
  then have "AuthenticateUser deps w (req_Email req) (req_Password req)
               = (Inl (AuthErrorPtr ErrInvalidPassword), w)"
    by (simp add: AuthenticateUser_wrong_password)
  from SignIn_auth_error [OF assms this]
  show "SignIn deps s r w =
          (Sent 401 (ErrorBody \<lparr>StatusCode = 401, Status = ''error'',
             err_Message = ''Wrong password'',
             Error = ''The password you entered is incorrect'',
             Timestamp = time_Format deps (time_Now deps (ticks w))\<rparr>),
           w\<lparr>ticks := Suc (ticks w)\<rparr>)"
    by (simp add: ErrInvalidPassword_def sendError_eq)
next
  assume "Users_FindOne deps (db w) (ByEmail (req_Email req)) = Inr user \<and> \<not> IsActive user"
  then have "AuthenticateUser deps w (req_Email req) (req_Password req)
               = (Inl (AuthErrorPtr ErrAccountDeactivated), w)"
    by (simp add: AuthenticateUser_deactivated)
  from SignIn_auth_error [OF assms this]
  show "SignIn deps s r w =
          (Sent 403 (ErrorBody \<lparr>StatusCode = 403, Status = ''error'',
             err_Message = ''Account deactivated'',
             Error = ''Your account has been deactivated. Please contact support'',
             Timestamp = time_Format deps (time_Now deps (ticks w))\<rparr>),
           w\<lparr>ticks := Suc (ticks w)\<rparr>)"
    by (simp add: ErrAccountDeactivated_def sendError_eq)
qed

lemma stub_decode:
  "json_DecodeSignIn stubDeps (RequestBody (signInRequest ''nobody@x.io secret''))
     = Inr \<lparr>req_Email = ''nobody@x.io'', req_Password = ''secret''\<rparr>"
  "json_DecodeSignIn stubDeps (RequestBody (signInRequest ''ada@x.io wrong''))
     = Inr \<lparr>req_Email = ''ada@x.io'', req_Password = ''wrong''\<rparr>"
  "json_DecodeSignIn stubDeps (RequestBody (signInRequest ''bob@x.io wrong''))
     = Inr \<lparr>req_Email = ''bob@x.io'', req_Password = ''wrong''\<rparr>"
  by (simp_all add: stubDeps_def stubDecode_def signInRequest_def)

lemma stub_signInRequest:
  "Method (signInRequest b) = ''POST''"
  "HasPrefix (Get (Header (signInRequest b)) ''Content-Type'') ''application/json''"
  by (simp_all add: signInRequest_def Get_def HasPrefix_def)

lemma stub_find:
  "Users_FindOne stubDeps (db stubWorld) (ByEmail ''nobody@x.io'') = Inl ErrNoDocuments"
  "Users_FindOne stubDeps (db stubWorld) (ByEmail ''ada@x.io'')
     = Inr (sampleUser ''ada@x.io'' RoleAdmin ''$2a$10$correct-horse'' True)"
  "Users_FindOne stubDeps (db stubWorld) (ByEmail ''bob@x.io'')
     = Inr (sampleUser ''bob@x.io'' RoleSuperAdmin ''$2a$10$battery-staple'' False)"
  by (simp_all add: stubDeps_def stubWorld_def stubFindOne_def sampleUser_def)

lemma stub_compare:
  "bcrypt_CompareHashAndPassword stubDeps
     (Password (sampleUser ''ada@x.io'' RoleAdmin ''$2a$10$correct-horse'' True)) ''wrong''
     = Some (ErrorString ''hashedPassword is not the hash of the given password'')"
  "bcrypt_CompareHashAndPassword stubDeps
     (Password (sampleUser ''bob@x.io'' RoleSuperAdmin ''$2a$10$battery-staple'' False))
     ''wrong''
     = Some (ErrorString ''hashedPassword is not the hash of the given password'')"
  by (simp_all add: stubDeps_def sampleUser_def)

lemma stub_time:
  "time_Format stubDeps (time_Now stubDeps (ticks stubWorld)) = ''2023-11-14T22:13:20Z''"
  by (simp add: stubDeps_def)

theorem signin_failures_witness:
  "fst (SignIn stubDeps stubService (signInRequest ''nobody@x.io secret'') stubWorld)
     = Sent 401 (errorBody 401 ''Email not found'' ''No user exists with this email address'') \<and>
   fst (SignIn stubDeps stubService (signInRequest ''ada@x.io wrong'') stubWorld)
     = Sent 401 (errorBody 401 ''Wrong password'' ''The password you entered is incorrect'') \<and>
   fst (SignIn stubDeps stubService (signInRequest ''bob@x.io wrong'') stubWorld)
     = Sent 403 (errorBody 403 ''Account deactivated''
         ''Your account has been deactivated. Please contact support'')"
proof -
  have a: "IsActive (sampleUser ''ada@x.io'' RoleAdmin ''$2a$10$correct-horse'' True)"
    and b: "\<not> IsActive (sampleUser ''bob@x.io'' RoleSuperAdmin ''$2a$10$battery-staple'' False)"
    by (simp_all add: sampleUser_def)
  have 1: "fst (SignIn stubDeps stubService (signInRequest ''nobody@x.io secret'') stubWorld)
     = Sent 401 (errorBody 401 ''Email not found'' ''No user exists with this email address'')"
    using signin_failures [OF stub_signInRequest stub_decode(1), where w = stubWorld and s = stubService
        and user = "sampleUser ''ada@x.io'' RoleAdmin ''$2a$10$correct-horse'' True"
        and e = "ErrorString ''hashedPassword is not the hash of the given password''"]
    by (simp add: stub_find stub_time errorBody_def Contains_def)
  have 2: "fst (SignIn stubDeps stubService (signInRequest ''ada@x.io wrong'') stubWorld)
     = Sent 401 (errorBody 401 ''Wrong password'' ''The password you entered is incorrect'')"
    using signin_failures [OF stub_signInRequest stub_decode(2), where w = stubWorld and s = stubService
        and user = "sampleUser ''ada@x.io'' RoleAdmin ''$2a$10$correct-horse'' True"
        and e = "ErrorString ''hashedPassword is not the hash of the given password''"]
    by (simp add: stub_find stub_compare a stub_time errorBody_def Contains_def)
  have 3: "fst (SignIn stubDeps stubService (signInRequest ''bob@x.io wrong'') stubWorld)
     = Sent 403 (errorBody 403 ''Account deactivated''
         ''Your account has been deactivated. Please contact support'')"
    using signin_failures [OF stub_signInRequest stub_decode(3), where w = stubWorld and s = stubService
        and user = "sampleUser ''bob@x.io'' RoleSuperAdmin ''$2a$10$battery-staple'' False"
        and e = "ErrorString ''hashedPassword is not the hash of the given password''"]
    by (simp add: stub_find b stub_time errorBody_def Contains_def)
  from 1 2 3 show ?thesis by simp
qed

text \<open>
  Claim C8 as stated promises 401 \<open>Wrong password\<close> for every existing email with a
  non-matching password. The store holds a deactivated user \<open>bob@x.io\<close>; signing in
  with that email and a password that does not match is answered 403, because the handler
  tests the active flag before the password.
\<close>

theorem signin_deactivated_counterexample:
  "Users_FindOne stubDeps (db stubWorld) (ByEmail ''bob@x.io'')
     = Inr (sampleUser ''bob@x.io'' RoleSuperAdmin ''$2a$10$battery-staple'' False) \<and>
   CheckPassword stubDeps
     (sampleUser ''bob@x.io'' RoleSuperAdmin ''$2a$10$battery-staple'' False) ''wrong'' = False \<and>
   fst (SignIn stubDeps stubService (signInRequest ''bob@x.io wrong'') stubWorld)
     = Sent 403 (errorBody 403 ''Account deactivated''
         ''Your account has been deactivated. Please contact support'') \<and>
   fst (SignIn stubDeps stubService (signInRequest ''bob@x.io wrong'') stubWorld)
     \<noteq> Sent 401 (errorBody 401 ''Wrong password'' ''The password you entered is incorrect'')"
proof -
  have b: "\<not> IsActive (sampleUser ''bob@x.io'' RoleSuperAdmin ''$2a$10$battery-staple'' False)"
    by (simp add: sampleUser_def)
  have auth: "AuthenticateUser stubDeps stubWorld ''bob@x.io'' ''wrong''
                = (Inl (AuthErrorPtr ErrAccountDeactivated), stubWorld)"
    by (rule AuthenticateUser_deactivated [OF stub_find(3) b])
  have "SignIn stubDeps stubService (signInRequest ''bob@x.io wrong'') stubWorld
          = sendError stubDeps stubWorld 403 ''Account deactivated''
              (Details ErrAccountDeactivated)"
    using SignIn_auth_error [OF stub_signInRequest stub_decode(3),
        where a = ErrAccountDeactivated and w = stubWorld and s = stubService] auth
    by (simp add: Contains_def ErrAccountDeactivated_def)
  then have "fst (SignIn stubDeps stubService (signInRequest ''bob@x.io wrong'') stubWorld)
     = Sent 403 (errorBody 403 ''Account deactivated''
         ''Your account has been deactivated. Please contact support'')"
    by (simp add: sendError_eq stub_time errorBody_def ErrAccountDeactivated_def)
  then show ?thesis
    by (simp add: stub_find CheckPassword_def stub_compare)
qed

section \<open>Pagination\<close>

lemma wrap64_id: "MinInt64 \<le> x \<Longrightarrow> x \<le> MaxInt64 \<Longrightarrow> wrap64 x = x"
  unfolding wrap64_def MinInt64_def MaxInt64_def
  by simp

lemma wrap64_sub_left: "wrap64 (wrap64 a - c) = wrap64 (a - c)"
proof -
  have "((a + 2 ^ 63) mod 2 ^ 64 - c) mod 2 ^ 64 = (a + 2 ^ 63 - c) mod (2 ^ 64 :: int)"
    by (rule mod_diff_left_eq)
  then show ?thesis by (simp add: wrap64_def algebra_simps)
qed

lemma ceiling_quotient:
  fixes t l :: int
  assumes "0 < l"
  shows "(t + l - 1) div l = \<lceil>real_of_int t / real_of_int l\<rceil>"
proof -
  define z where "z = (t + l - 1) div l"
  have eq: "t + l - 1 = z * l + (t + l - 1) mod l"
    by (simp add: z_def)
  have m: "0 \<le> (t + l - 1) mod l" "(t + l - 1) mod l < l"
    using assms by simp_all
  have lo: "z * l \<le> t + l - 1" using eq m by linarith
  have hi: "t + l - 1 < z * l + l" using eq m by linarith
  have a: "real_of_int z - 1 < real_of_int t / real_of_int l"
  proof -
    have "(z - 1) * l < t" using lo by (simp add: algebra_simps)
    then have "real_of_int ((z - 1) * l) < real_of_int t" by linarith
    then show ?thesis using assms by (simp add: field_simps)
  qed
  have b: "real_of_int t / real_of_int l \<le> real_of_int z"
  proof -
    have "t \<le> z * l" using hi by simp
    then have "real_of_int t \<le> real_of_int (z * l)" by linarith
    then show ?thesis using assms by (simp add: field_simps)
  qed
  have "\<lceil>real_of_int t / real_of_int l\<rceil> = z"
    by (rule ceiling_unique) (use a b in simp_all)
  then show ?thesis by (simp add: z_def)
qed

lemma skip_exact:
  assumes "1 \<le> page" "page \<le> MaxInt64" "1 \<le> limit" "(page - 1) * limit \<le> MaxInt64"
  shows "opt_Skip (enquiryFindOptions page limit) = (page - 1) * limit"
proof -
  have "MinInt64 \<le> page - 1" using assms(1) by (simp add: MinInt64_def)
  then have p: "sub64 page 1 = page - 1"
    using assms(2) by (simp add: sub64_def wrap64_id)
  have "0 \<le> (page - 1) * limit" using assms(1,3) by simp
  then have "MinInt64 \<le> (page - 1) * limit" by (simp add: MinInt64_def)
  then show ?thesis
    using assms(4) by (simp add: enquiryFindOptions_def mul64_def p wrap64_id)
qed

lemma totalPages_exact:
  assumes "0 \<le> totalCount" "1 \<le> limit" "totalCount + limit - 1 \<le> MaxInt64"
  shows "quo64 (sub64 (add64 totalCount limit) 1) limit
           = \<lceil>real_of_int totalCount / real_of_int limit\<rceil>"
proof -
  have n: "0 \<le> totalCount + limit - 1" using assms(1,2) by simp
  then have "MinInt64 \<le> totalCount + limit - 1" by (simp add: MinInt64_def)
  then have s: "sub64 (add64 totalCount limit) 1 = totalCount + limit - 1"
    using assms(3) by (simp add: sub64_def add64_def wrap64_sub_left wrap64_id)
  have q0: "0 \<le> (totalCount + limit - 1) div limit"
    using n assms(2) by (simp add: pos_imp_zdiv_nonneg_iff)
  have "(totalCount + limit - 1) div limit * 1
          \<le> (totalCount + limit - 1) div limit * limit"
    using q0 assms(2) by (intro mult_left_mono) simp_all
  moreover have "(totalCount + limit - 1) div limit * limit \<le> totalCount + limit - 1"
  proof -
    have "totalCount + limit - 1
            = (totalCount + limit - 1) div limit * limit + (totalCount + limit - 1) mod limit"
      by simp
    moreover have "0 \<le> (totalCount + limit - 1) mod limit"
      using assms(2) by simp
    ultimately show ?thesis by linarith
  qed
  ultimately have "(totalCount + limit - 1) div limit \<le> totalCount + limit - 1"
    by simp
  then have q1: "(totalCount + limit - 1) div limit \<le> MaxInt64"
    using assms(3) by linarith
  have "quo64 (totalCount + limit - 1) limit = (totalCount + limit - 1) div limit"
    using n assms(2) q0 q1 by (simp add: quo64_def wrap64_id MinInt64_def)
  then show ?thesis
    using assms(2) by (simp add: s ceiling_quotient)
qed

text \<open>
  Claim C5, as the code has it, in 64-bit arithmetic. For page, limit and total count
  with page \<open>\<ge> 1\<close>, limit \<open>\<ge> 1\<close>, total \<open>\<ge> 0\<close>, and as long as \<open>(page-1)*limit\<close>,
  \<open>total+limit-1\<close> and \<open>page+1\<close> do not exceed the largest \<open>int64\<close>: the skip sent
  to the store is \<open>(page-1)*limit\<close>, and when the store answers, the pagination
  descriptor has totalPages \<open>= ceil(total/limit)\<close>, hasNext \<open>= (page < totalPages)\<close>,
  hasPrevious \<open>= (page > 1)\<close>, nextPage \<open>= page+1\<close> and previousPage \<open>= page-1\<close>,
  whatever the flags say.
\<close>

theorem pagination_descriptor:
  assumes "1 \<le> page" and "1 \<le> limit" and "0 \<le> totalCount"
    and "limit \<le> MaxInt64"
    and "(page - 1) * limit \<le> MaxInt64"
    and "totalCount + limit - 1 \<le> MaxInt64"
    and "page + 1 \<le> MaxInt64"
    and "Enquiries_Find deps (db w) (enquiryFilter enquiryType date)
           (enquiryFindOptions page limit) = Inr enquiries"
    and "Enquiries_CountDocuments deps (db w) (enquiryFilter enquiryType date) = Inr totalCount"
  shows "opt_Skip (enquiryFindOptions page limit) = (page - 1) * limit \<and>
    GetAllEnquiries deps w page limit enquiryType date =
      Inr \<lparr>Enquiries = enquiries,
           Pagination =
             \<lparr>CurrentPage = page,
              TotalPages = \<lceil>real_of_int totalCount / real_of_int limit\<rceil>,
              TotalCount = totalCount, Limit = limit,
              HasNext = (page < \<lceil>real_of_int totalCount / real_of_int limit\<rceil>),
              HasPrevious = (page > 1),
              NextPage = page + 1, PreviousPage = page - 1\<rparr>,
           Filters = \<lparr>EnquiryType = enquiryType, Date = date\<rparr>\<rparr>"
proof -
  have pr: "page \<le> MaxInt64" using assms(7) by simp
  have sk: "opt_Skip (enquiryFindOptions page limit) = (page - 1) * limit"
    by (rule skip_exact [OF assms(1) pr assms(2) assms(5)])
  have tp: "quo64 (sub64 (add64 totalCount limit) 1) limit
              = \<lceil>real_of_int totalCount / real_of_int limit\<rceil>"
    by (rule totalPages_exact [OF assms(3) assms(2) assms(6)])
  have np: "add64 page 1 = page + 1"
    using assms(1,7) by (simp add: add64_def wrap64_id MinInt64_def)
  have pp: "sub64 page 1 = page - 1"
    using assms(1) pr by (simp add: sub64_def wrap64_id MinInt64_def)
  have l0: "limit \<noteq> 0" using assms(2) by simp
  have "GetAllEnquiries deps w page limit enquiryType date =
      Inr \<lparr>Enquiries = enquiries,
           Pagination =
             \<lparr>CurrentPage = page,
              TotalPages = \<lceil>real_of_int totalCount / real_of_int limit\<rceil>,
              TotalCount = totalCount, Limit = limit,
              HasNext = (page < \<lceil>real_of_int totalCount / real_of_int limit\<rceil>),
              HasPrevious = (page > 1),
              NextPage = page + 1, PreviousPage = page - 1\<rparr>,
           Filters = \<lparr>EnquiryType = enquiryType, Date = date\<rparr>\<rparr>"
    unfolding GetAllEnquiries_def Let_def
    by (simp only: assms(8,9) sum.case l0 if_False tp np pp)
  with sk show ?thesis by simp
qed

lemma stub_store:
  "Enquiries_Find stubDeps (db stubWorld) f opts = Inr []"
  "Enquiries_CountDocuments stubDeps (db stubWorld) f = Inr 25"
  by (simp_all add: stubDeps_def)

theorem pagination_descriptor_witness:
  "opt_Skip (enquiryFindOptions 3 10) = 20 \<and>
   GetAllEnquiries stubDeps stubWorld 3 10 [] [] =
     Inr \<lparr>Enquiries = [],
          Pagination =
            \<lparr>CurrentPage = 3, TotalPages = 3, TotalCount = 25, Limit = 10,
             HasNext = False, HasPrevious = True, NextPage = 4, PreviousPage = 2\<rparr>,
          Filters = \<lparr>EnquiryType = [], Date = []\<rparr>\<rparr>"
proof -
  have c: "\<lceil>real_of_int 25 / real_of_int 10\<rceil> = 3" by simp
  show ?thesis
    using pagination_descriptor [of 3 10 25 stubDeps stubWorld "[]" "[]" "[]"]
    by (simp add: stub_store MaxInt64_def c)
qed

text \<open>
  Claim C5 as stated holds for every page and limit. In \<open>int64\<close> the product
  \<open>(page-1)*limit\<close> wraps around: page \<open>2^62+1\<close> with limit 4 sends skip 0 to the
  store; and page \<open>2^63-1\<close> has the next page \<open>-2^63\<close>.
\<close>

theorem pagination_overflow_counterexample:
  "opt_Skip (enquiryFindOptions 4611686018427387905 4) = 0 \<and>
   (4611686018427387905 - 1) * 4 = (18446744073709551616 :: int) \<and>
   GetAllEnquiries stubDeps stubWorld 9223372036854775807 1 [] [] =
     Inr \<lparr>Enquiries = [],
          Pagination =
            \<lparr>CurrentPage = 9223372036854775807, TotalPages = 25, TotalCount = 25,
             Limit = 1, HasNext = False, HasPrevious = True,
             NextPage = - 9223372036854775808, PreviousPage = 9223372036854775806\<rparr>,
          Filters = \<lparr>EnquiryType = [], Date = []\<rparr>\<rparr>"
  by (simp add: enquiryFindOptions_def GetAllEnquiries_def stub_store mul64_def sub64_def
      add64_def quo64_def wrap64_def)

section \<open>Page and limit parameters\<close>

lemma ParseInt_empty: "ParseInt [] = Inl (ErrorString ''invalid syntax'')"
  by (simp add: ParseInt_def)

lemma parsePage_cases:
  "parsePage s = (case ParseInt s of Inl e \<Rightarrow> 1 | Inr n \<Rightarrow> if 0 < n then n else 1)"
  by (cases "s = []") (simp_all add: parsePage_def ParseInt_empty split: sum.splits)

lemma parseLimit_cases:
  "parseLimit s = (case ParseInt s of Inl e \<Rightarrow> 10 | Inr n \<Rightarrow> if 0 < n then min n 100 else 10)"
  by (cases "s = []") (simp_all add: parseLimit_def ParseInt_empty split: sum.splits)

lemma decimal_nonneg: "list_all isDigit s \<Longrightarrow> 0 \<le> acc \<Longrightarrow> 0 \<le> decimal acc s"
  by (induction s arbitrary: acc) (auto simp: isDigit_def digitValue_def)

lemma ParseInt_range:
  assumes "ParseInt s = Inr n"
  shows "MinInt64 \<le> n \<and> n \<le> MaxInt64"
  using assms decimal_nonneg [of s 0] decimal_nonneg [of "tl s" 0]
  unfolding ParseInt_def Let_def MinInt64_def MaxInt64_def
  by (auto split: if_splits)

text \<open>
  Claim C6, as the code has it. The effective page is 1 when the \<open>page\<close> parameter is
  absent (the empty string), does not parse, or parses to a value that is not positive,
  and is the parsed value otherwise. The effective limit is 10 when the \<open>limit\<close>
  parameter is absent, does not parse, or parses to a value that is not positive, and is
  the smaller of the parsed value and 100 otherwise; so it is always between 1 and 100.
  These are the page and the limit the handler calls the service with.
\<close>

theorem page_and_limit:
  "(Get (URLQuery r) ''page'' = [] \<longrightarrow> parsePage (Get (URLQuery r) ''page'') = 1) \<and>
   (ParseInt (Get (URLQuery r) ''page'') = Inl e \<longrightarrow>
      parsePage (Get (URLQuery r) ''page'') = 1) \<and>
   (ParseInt (Get (URLQuery r) ''page'') = Inr n \<and> n \<le> 0 \<longrightarrow>
      parsePage (Get (URLQuery r) ''page'') = 1) \<and>
   (ParseInt (Get (URLQuery r) ''page'') = Inr n \<and> 0 < n \<longrightarrow>
      parsePage (Get (URLQuery r) ''page'') = n) \<and>
   (Get (URLQuery r) ''limit'' = [] \<longrightarrow> parseLimit (Get (URLQuery r) ''limit'') = 10) \<and>
   (ParseInt (Get (URLQuery r) ''limit'') = Inl e' \<longrightarrow>
      parseLimit (Get (URLQuery r) ''limit'') = 10) \<and>
   (ParseInt (Get (URLQuery r) ''limit'') = Inr m \<and> m \<le> 0 \<longrightarrow>
      parseLimit (Get (URLQuery r) ''limit'') = 10) \<and>
   (ParseInt (Get (URLQuery r) ''limit'') = Inr m \<and> 0 < m \<longrightarrow>
      parseLimit (Get (URLQuery r) ''limit'') = min m 100) \<and>
   1 \<le> parseLimit (Get (URLQuery r) ''limit'') \<and>
   parseLimit (Get (URLQuery r) ''limit'') \<le> 100 \<and>
   1 \<le> parsePage (Get (URLQuery r) ''page'') \<and>
   parsePage (Get (URLQuery r) ''page'') \<le> MaxInt64 \<and>
   (Method r = ''GET'' \<longrightarrow>
      GetAllEnquiriesHandler deps r w =
        (case GetAllEnquiries deps w (parsePage (Get (URLQuery r) ''page''))
                (parseLimit (Get (URLQuery r) ''limit''))
                (Get (URLQuery r) ''enquiry_type'') (Get (URLQuery r) ''date'') of
           Inl (RuntimePanic m) \<Rightarrow> (Panicked m, w)
         | Inl err \<Rightarrow> sendError deps w 500 ''Failed to retrieve enquiries'' (ErrorText err)
         | Inr enquiries \<Rightarrow>
             sendSuccess deps w 200 ''Enquiries retrieved successfully''
               (EnquiryListData enquiries)))"
proof -
  have p: "1 \<le> parsePage (Get (URLQuery r) ''page'') \<and>
           parsePage (Get (URLQuery r) ''page'') \<le> MaxInt64"
    using ParseInt_range [of "Get (URLQuery r) ''page''"]
    by (auto simp: parsePage_cases MaxInt64_def split: sum.splits)
  have l: "1 \<le> parseLimit (Get (URLQuery r) ''limit'') \<and>
           parseLimit (Get (URLQuery r) ''limit'') \<le> 100"
    by (auto simp: parseLimit_cases split: sum.splits)
  have h: "Method r = ''GET'' \<longrightarrow>
      GetAllEnquiriesHandler deps r w =
        (case GetAllEnquiries deps w (parsePage (Get (URLQuery r) ''page''))
                (parseLimit (Get (URLQuery r) ''limit''))
                (Get (URLQuery r) ''enquiry_type'') (Get (URLQuery r) ''date'') of
           Inl (RuntimePanic m) \<Rightarrow> (Panicked m, w)
         | Inl err \<Rightarrow> sendError deps w 500 ''Failed to retrieve enquiries'' (ErrorText err)
         | Inr enquiries \<Rightarrow>
             sendSuccess deps w 200 ''Enquiries retrieved successfully''
               (EnquiryListData enquiries))"
    unfolding GetAllEnquiriesHandler_def StatusInternalServerError_def StatusOK_def Let_def
    by simp
  show ?thesis
    using p l h by (simp add: parsePage_cases parseLimit_cases ParseInt_empty)
qed

lemma stub_query:
  "Get (URLQuery (listRequest ps)) k = (case map_of ps k of None \<Rightarrow> [] | Some v \<Rightarrow> v)"
  by (induction ps) (auto simp: listRequest_def stubRequest_def Get_def split: option.splits)

lemma ParseInt_examples:
  "ParseInt ''7'' = Inr 7"
  "ParseInt ''0'' = Inr 0"
  "ParseInt ''-3'' = Inr (- 3)"
  "ParseInt ''250'' = Inr 250"
  "ParseInt ''25'' = Inr 25"
  "ParseInt ''abc'' = Inl (ErrorString ''invalid syntax'')"
  "ParseInt ''9223372036854775808'' = Inl (ErrorString ''value out of range'')"
  by (simp_all add: ParseInt_def isDigit_def digitValue_def)

theorem page_and_limit_witness:
  "parsePage (Get (URLQuery (listRequest [])) ''page'') = 1 \<and>
   parsePage (Get (URLQuery (listRequest [(''page'', ''abc'')])) ''page'') = 1 \<and>
   parsePage (Get (URLQuery (listRequest [(''page'', ''-3'')])) ''page'') = 1 \<and>
   parsePage (Get (URLQuery (listRequest [(''page'', ''7'')])) ''page'') = 7 \<and>
   parseLimit (Get (URLQuery (listRequest [])) ''limit'') = 10 \<and>
   parseLimit (Get (URLQuery (listRequest [(''limit'', ''abc'')])) ''limit'') = 10 \<and>
   parseLimit (Get (URLQuery (listRequest [(''limit'', ''0'')])) ''limit'') = 10 \<and>
   parseLimit (Get (URLQuery (listRequest [(''limit'', ''25'')])) ''limit'') = 25 \<and>
   parseLimit (Get (URLQuery (listRequest [(''limit'', ''250'')])) ''limit'') = 100 \<and>
   fst (GetAllEnquiriesHandler stubDeps
          (listRequest [(''page'', ''7''), (''limit'', ''250'')]) stubWorld) =
     Sent 200 (SuccessBody
       \<lparr>ok_StatusCode = 200, ok_Status = ''success'',
        ok_Message = ''Enquiries retrieved successfully'',
        Data = EnquiryListData
          \<lparr>Enquiries = [],
           Pagination =
             \<lparr>CurrentPage = 7, TotalPages = 1, TotalCount = 25, Limit = 100,
              HasNext = False, HasPrevious = True, NextPage = 8, PreviousPage = 6\<rparr>,
           Filters = \<lparr>EnquiryType = [], Date = []\<rparr>\<rparr>,
        ok_Timestamp = ''2023-11-14T22:13:20Z''\<rparr>)"
proof -
  have m: "Method (listRequest ps) = ''GET''" for ps
    by (simp add: listRequest_def stubRequest_def)
  have g: "GetAllEnquiries stubDeps stubWorld 7 100 [] [] =
     Inr \<lparr>Enquiries = [],
          Pagination =
            \<lparr>CurrentPage = 7, TotalPages = 1, TotalCount = 25, Limit = 100,
             HasNext = False, HasPrevious = True, NextPage = 8, PreviousPage = 6\<rparr>,
          Filters = \<lparr>EnquiryType = [], Date = []\<rparr>\<rparr>"
    by (simp add: GetAllEnquiries_def stubDeps_def enquiryFilter_def enquiryFindOptions_def
        mul64_def sub64_def add64_def quo64_def wrap64_def)
  have s: "sendSuccess stubDeps stubWorld code msg payload =
             (Sent code (SuccessBody \<lparr>ok_StatusCode = code, ok_Status = ''success'',
                ok_Message = msg, Data = payload, ok_Timestamp = ''2023-11-14T22:13:20Z''\<rparr>),
              stubWorld\<lparr>ticks := Suc (ticks stubWorld)\<rparr>)" for code msg payload
    by (simp add: sendSuccess_def CreateSuccessResponse_def Now_def stubDeps_def)
  show ?thesis
    using page_and_limit [of "listRequest []" "ErrorString ''invalid syntax''" 0
        "ErrorString ''invalid syntax''" 0 stubDeps stubWorld]
      page_and_limit [of "listRequest [(''page'', ''abc'')]" "ErrorString ''invalid syntax''" 0
        "ErrorString ''invalid syntax''" 0 stubDeps stubWorld]
      page_and_limit [of "listRequest [(''page'', ''-3'')]" "ErrorString ''invalid syntax''"
        "- 3" "ErrorString ''invalid syntax''" 0 stubDeps stubWorld]
      page_and_limit [of "listRequest [(''limit'', ''abc'')]" "ErrorString ''invalid syntax''"
        0 "ErrorString ''invalid syntax''" 0 stubDeps stubWorld]
      page_and_limit [of "listRequest [(''limit'', ''0'')]" "ErrorString ''invalid syntax''"
        0 "ErrorString ''invalid syntax''" 0 stubDeps stubWorld]
      page_and_limit [of "listRequest [(''limit'', ''25'')]" "ErrorString ''invalid syntax''"
        0 "ErrorString ''invalid syntax''" 25 stubDeps stubWorld]
      page_and_limit [of "listRequest [(''page'', ''7''), (''limit'', ''250'')]"
        "ErrorString ''invalid syntax''" 7 "ErrorString ''invalid syntax''" 250 stubDeps
        stubWorld]
    by (simp add: stub_query ParseInt_examples ParseInt_empty m g s)
qed

text \<open>
  Claim C6 as stated says the limit is clamped to at least 1. A limit parameter of 0 is
  not raised to 1: the handler falls back to the default 10.
\<close>

theorem limit_zero_counterexample:
  "ParseInt ''0'' = Inr 0 \<and>
   parseLimit (Get (URLQuery (listRequest [(''limit'', ''0'')])) ''limit'') = 10 \<and>
   parseLimit (Get (URLQuery (listRequest [(''limit'', ''0'')])) ''limit'')
     \<noteq> max 1 (min 100 0)"
  by (simp add: stub_query parseLimit_cases ParseInt_examples)

section \<open>The date filter\<close>

lemma NewDateTimeFromTime_start:
  "NewDateTimeFromTime (time_Date y m d 0 0 0 0) = daysFromCivil y m d * 86400000"
proof -
  define s where "s = daysFromCivil y m d * 86400"
  have e: "time_Date y m d 0 0 0 0 = s * Second"
    by (simp add: time_Date_def s_def)
  have q: "(s * Second) div Second = s" "(s * Second) mod Second = 0"
    by (simp_all add: Second_def)
  show ?thesis
    unfolding NewDateTimeFromTime_def e q by (simp add: s_def)
qed

lemma NewDateTimeFromTime_end:
  "NewDateTimeFromTime (time_Date y m d 23 59 59 999999999)
     = daysFromCivil y m d * 86400000 + 86399999"
proof -
  define s where "s = daysFromCivil y m d * 86400 + 86399"
  have e: "time_Date y m d 23 59 59 999999999 = s * Second + 999999999"
    by (simp add: time_Date_def s_def)
  have q: "(s * Second + 999999999) div Second = s"
    by (simp add: Second_def)
  have r: "(s * Second + 999999999) mod Second = 999999999"
    by (simp add: Second_def)
  show ?thesis
    unfolding NewDateTimeFromTime_def e q r by (simp add: s_def Millisecond_def)
qed

lemma end_of_day: "time_Date y m d 23 59 59 999999999 = time_Date y m d 0 0 0 0 + 24 * Hour - 1"
  by (simp add: time_Date_def Hour_def Second_def)

lemma enquiryFilter_parsed:
  assumes "ParseDate date = Inr (y, m, d)"
  shows "created_at (enquiryFilter ty date)
           = Some (NewDateTimeFromTime (time_Date y m d 0 0 0 0),
                   NewDateTimeFromTime (time_Date y m d 23 59 59 999999999))"
proof -
  have "date \<noteq> []" using assms by (auto simp: ParseDate_def)
  then show ?thesis using assms by (simp add: enquiryFilter_def Let_def)
qed

lemma enquiryFilter_unparsed:
  assumes "ParseDate date = Inl e"
  shows "enquiryFilter ty date = enquiryFilter ty []"
  using assms by (simp add: enquiryFilter_def Let_def)

lemma enquiryFilter_no_date: "created_at (enquiryFilter ty []) = None"
  by (simp add: enquiryFilter_def Let_def)

lemma scale_lower: "(a \<le> t) = (a * 1000000 \<le> t * (1000000::int))"
  by simp

lemma scale_upper: "(t \<le> h) = (t * 1000000 \<le> h * 1000000 + (999999::int))"
  by linarith

lemma day_range_in_milliseconds:
  fixes t D :: int
  shows "(D * 86400000 \<le> t \<and> t \<le> D * 86400000 + 86399999)
           = (D * 86400 * 1000000000 \<le> t * 1000000
              \<and> t * 1000000 \<le> (D * 86400 + 86399) * 1000000000 + 999999999)"
proof -
  have a: "D * 86400 * 1000000000 = (D * 86400000) * 1000000" by simp
  have b: "(D * 86400 + 86399) * 1000000000 + 999999999
             = (D * 86400000 + 86399999) * 1000000 + 999999"
    by (simp add: algebra_simps)
  show ?thesis
    unfolding a b
    using scale_lower [of "D * 86400000" t] scale_upper [of t "D * 86400000 + 86399999"]
    by blast
qed

lemma createdAtMatches_parsed:
  assumes "ParseDate date = Inr (y, m, d)"
  shows "createdAtMatches (enquiryFilter ty date) t
           = (time_Date y m d 0 0 0 0 \<le> t * Millisecond
              \<and> t * Millisecond \<le> time_Date y m d 23 59 59 999999999)"
proof -
  have "createdAtMatches (enquiryFilter ty date) t
          = (daysFromCivil y m d * 86400000 \<le> t \<and> t \<le> daysFromCivil y m d * 86400000 + 86399999)"
    by (simp add: createdAtMatches_def enquiryFilter_parsed [OF assms]
        NewDateTimeFromTime_start NewDateTimeFromTime_end)
  also have "\<dots> = (daysFromCivil y m d * 86400 * 1000000000 \<le> t * 1000000
              \<and> t * 1000000 \<le> (daysFromCivil y m d * 86400 + 86399) * 1000000000 + 999999999)"
    by (rule day_range_in_milliseconds)
  also have "\<dots> = (time_Date y m d 0 0 0 0 \<le> t * Millisecond
              \<and> t * Millisecond \<le> time_Date y m d 23 59 59 999999999)"
    by (simp add: time_Date_def Second_def Millisecond_def)
  finally show ?thesis .
qed

lemma GetAllEnquiries_unparsed:
  assumes "ParseDate date = Inl e"
  shows "GetAllEnquiries deps w page limit ty date =
           map_sum id (\<lambda>resp. resp\<lparr>Filters := \<lparr>EnquiryType = ty, Date = date\<rparr>\<rparr>)
             (GetAllEnquiries deps w page limit ty [])"
  unfolding GetAllEnquiries_def Let_def enquiryFilter_unparsed [OF assms]
  by (simp split: sum.splits)

lemma parseLimit_nonzero: "parseLimit s \<noteq> 0"
  by (auto simp: parseLimit_def Let_def split: sum.splits)

lemma handler_succeeds:
  assumes "Method r = ''GET''"
    and "Enquiries_Find deps (db w)
           (enquiryFilter (Get (URLQuery r) ''enquiry_type'') (Get (URLQuery r) ''date''))
           (enquiryFindOptions (parsePage (Get (URLQuery r) ''page''))
              (parseLimit (Get (URLQuery r) ''limit''))) = Inr enquiries"
    and "Enquiries_CountDocuments deps (db w)
           (enquiryFilter (Get (URLQuery r) ''enquiry_type'') (Get (URLQuery r) ''date''))
           = Inr totalCount"
  shows "\<exists>resp. GetAllEnquiriesHandler deps r w =
           (Sent 200 (SuccessBody \<lparr>ok_StatusCode = 200, ok_Status = ''success'',
              ok_Message = ''Enquiries retrieved successfully'',
              Data = EnquiryListData resp,
              ok_Timestamp = time_Format deps (time_Now deps (ticks w))\<rparr>),
            w\<lparr>ticks := Suc (ticks w)\<rparr>)
         \<and> Enquiries resp = enquiries \<and> TotalCount (Pagination resp) = totalCount"
  using assms parseLimit_nonzero [of "Get (URLQuery r) ''limit''"]
  by (simp add: GetAllEnquiriesHandler_def GetAllEnquiries_def Let_def sendSuccess_def
      CreateSuccessResponse_def Now_def StatusOK_def)

lemma enquiryFilter_parsed_record:
  assumes "ParseDate date = Inr (y, m, d)"
  shows "enquiryFilter ty date =
           \<lparr>enquiry_type = (if ty = [] then None else Some ty),
            created_at = Some (NewDateTimeFromTime (time_Date y m d 0 0 0 0),
                               NewDateTimeFromTime (time_Date y m d 23 59 59 999999999))\<rparr>"
proof -
  have "date \<noteq> []" using assms by (auto simp: ParseDate_def)
  then show ?thesis using assms by (simp add: enquiryFilter_def Let_def)
qed

lemma enquiryFilter_unparsed_record:
  assumes "ParseDate date = Inl e"
  shows "enquiryFilter ty date =
           \<lparr>enquiry_type = (if ty = [] then None else Some ty), created_at = None\<rparr>"
  using assms by (simp add: enquiryFilter_def Let_def)

lemma enquiryFindOptions_record:
  "enquiryFindOptions page limit =
     \<lparr>opt_Limit = limit, opt_Skip = mul64 (sub64 page 1) limit,
      opt_Sort = [(''created_at'', - 1)]\<rparr>"
  by (simp add: enquiryFindOptions_def)

lemma GetAllEnquiries_answer:
  assumes "enquiryFilter ty date = f" and "enquiryFindOptions page limit = opts"
    and "limit \<noteq> 0"
    and "Enquiries_Find deps (db w) f opts = Inr enquiries"
    and "Enquiries_CountDocuments deps (db w) f = Inr totalCount"
  shows "GetAllEnquiries deps w page limit ty date =
      Inr \<lparr>Enquiries = enquiries,
           Pagination =
             \<lparr>CurrentPage = page,
              TotalPages = quo64 (sub64 (add64 totalCount limit) 1) limit,
              TotalCount = totalCount, Limit = limit,
              HasNext = (page < quo64 (sub64 (add64 totalCount limit) 1) limit),
              HasPrevious = (page > 1),
              NextPage = add64 page 1, PreviousPage = sub64 page 1\<rparr>,
           Filters = \<lparr>EnquiryType = ty, Date = date\<rparr>\<rparr>"
  unfolding GetAllEnquiries_def Let_def assms(1,2)
  by (simp only: assms(3,4,5) sum.case if_False)

lemma GetAllEnquiries_find_error:
  assumes "enquiryFilter ty date = f" and "enquiryFindOptions page limit = opts"
    and "Enquiries_Find deps (db w) f opts = Inl err"
  shows "GetAllEnquiries deps w page limit ty date = Inl err"
  unfolding GetAllEnquiries_def Let_def assms(1,2)
  by (simp only: assms(3) sum.case)

lemma GetAllEnquiries_count_error:
  assumes "enquiryFilter ty date = f" and "enquiryFindOptions page limit = opts"
    and "Enquiries_Find deps (db w) f opts = Inr enquiries"
    and "Enquiries_CountDocuments deps (db w) f = Inl err"
  shows "GetAllEnquiries deps w page limit ty date = Inl err"
  unfolding GetAllEnquiries_def Let_def assms(1,2)
  by (simp only: assms(3,4) sum.case)

text \<open>
  Claim C7. When the date parses as \<open>YYYY-MM-DD\<close>, the filter that
  \<open>GetAllEnquiries\<close> gives to the store, to \<open>Find\<close> and to \<open>CountDocuments\<close>
  alike, bounds \<open>created_at\<close> from below by 00:00:00 UTC of that day and from above by
  23:59:59.999999999 UTC of it, both converted to the store's milliseconds: what the
  service returns is what the store answers for that filter, enquiries, count and errors.
  The two instants are one nanosecond short of 24 hours apart, and a creation timestamp,
  which the store keeps in milliseconds, passes the filter exactly when it lies between
  them, bounds included. When the date does not parse, the filter given to the store has
  no constraint on \<open>created_at\<close>, no error comes from the date, the service returns
  what it returns for no date (the echoed date apart), and the handler answers 200
  whenever the store answers.
\<close>

theorem date_filter:
  "(ParseDate date = Inr (year, month, day) \<longrightarrow>
      created_at (enquiryFilter enquiryType date)
        = Some (NewDateTimeFromTime (time_Date year month day 0 0 0 0),
                NewDateTimeFromTime (time_Date year month day 23 59 59 999999999)) \<and>
      time_Date year month day 23 59 59 999999999
        = time_Date year month day 0 0 0 0 + 24 * Hour - 1 \<and>
      createdAtMatches (enquiryFilter enquiryType date) t
        = (time_Date year month day 0 0 0 0 \<le> t * Millisecond
           \<and> t * Millisecond \<le> time_Date year month day 23 59 59 999999999)) \<and>
   (ParseDate date = Inr (year, month, day) \<and> limit \<noteq> 0 \<and>
      Enquiries_Find deps (db w)
        \<lparr>enquiry_type = (if enquiryType = [] then None else Some enquiryType),
         created_at = Some (NewDateTimeFromTime (time_Date year month day 0 0 0 0),
                            NewDateTimeFromTime (time_Date year month day 23 59 59 999999999))\<rparr>
        \<lparr>opt_Limit = limit, opt_Skip = mul64 (sub64 page 1) limit,
         opt_Sort = [(''created_at'', - 1)]\<rparr> = Inr enquiries \<and>
      Enquiries_CountDocuments deps (db w)
        \<lparr>enquiry_type = (if enquiryType = [] then None else Some enquiryType),
         created_at = Some (NewDateTimeFromTime (time_Date year month day 0 0 0 0),
                            NewDateTimeFromTime (time_Date year month day 23 59 59 999999999))\<rparr>
        = Inr totalCount \<longrightarrow>
      GetAllEnquiries deps w page limit enquiryType date =
        Inr \<lparr>Enquiries = enquiries,
             Pagination =
               \<lparr>CurrentPage = page,
                TotalPages = quo64 (sub64 (add64 totalCount limit) 1) limit,
                TotalCount = totalCount, Limit = limit,
                HasNext = (page < quo64 (sub64 (add64 totalCount limit) 1) limit),
                HasPrevious = (page > 1),
                NextPage = add64 page 1, PreviousPage = sub64 page 1\<rparr>,
             Filters = \<lparr>EnquiryType = enquiryType, Date = date\<rparr>\<rparr>) \<and>
   (ParseDate date = Inr (year, month, day) \<and>
      Enquiries_Find deps (db w)
        \<lparr>enquiry_type = (if enquiryType = [] then None else Some enquiryType),
         created_at = Some (NewDateTimeFromTime (time_Date year month day 0 0 0 0),
                            NewDateTimeFromTime (time_Date year month day 23 59 59 999999999))\<rparr>
        \<lparr>opt_Limit = limit, opt_Skip = mul64 (sub64 page 1) limit,
         opt_Sort = [(''created_at'', - 1)]\<rparr> = Inl err \<longrightarrow>
      GetAllEnquiries deps w page limit enquiryType date = Inl err) \<and>
   (ParseDate date = Inr (year, month, day) \<and>
      Enquiries_Find deps (db w)
        \<lparr>enquiry_type = (if enquiryType = [] then None else Some enquiryType),
         created_at = Some (NewDateTimeFromTime (time_Date year month day 0 0 0 0),
                            NewDateTimeFromTime (time_Date year month day 23 59 59 999999999))\<rparr>
        \<lparr>opt_Limit = limit, opt_Skip = mul64 (sub64 page 1) limit,
         opt_Sort = [(''created_at'', - 1)]\<rparr> = Inr enquiries \<and>
      Enquiries_CountDocuments deps (db w)
        \<lparr>enquiry_type = (if enquiryType = [] then None else Some enquiryType),
         created_at = Some (NewDateTimeFromTime (time_Date year month day 0 0 0 0),
                            NewDateTimeFromTime (time_Date year month day 23 59 59 999999999))\<rparr>
        = Inl err \<longrightarrow>
      GetAllEnquiries deps w page limit enquiryType date = Inl err) \<and>
   (ParseDate date = Inl e \<longrightarrow>
      enquiryFilter enquiryType date = enquiryFilter enquiryType [] \<and>
      created_at (enquiryFilter enquiryType date) = None \<and>
      createdAtMatches (enquiryFilter enquiryType date) t \<and>
      GetAllEnquiries deps w page limit enquiryType date =
        map_sum id (\<lambda>resp. resp\<lparr>Filters := \<lparr>EnquiryType = enquiryType, Date = date\<rparr>\<rparr>)
          (GetAllEnquiries deps w page limit enquiryType [])) \<and>
   (ParseDate date = Inl e \<and> limit \<noteq> 0 \<and>
      Enquiries_Find deps (db w)
        \<lparr>enquiry_type = (if enquiryType = [] then None else Some enquiryType),
         created_at = None\<rparr>
        \<lparr>opt_Limit = limit, opt_Skip = mul64 (sub64 page 1) limit,
         opt_Sort = [(''created_at'', - 1)]\<rparr> = Inr enquiries \<and>
      Enquiries_CountDocuments deps (db w)
        \<lparr>enquiry_type = (if enquiryType = [] then None else Some enquiryType),
         created_at = None\<rparr> = Inr totalCount \<longrightarrow>
      GetAllEnquiries deps w page limit enquiryType date =
        Inr \<lparr>Enquiries = enquiries,
             Pagination =
               \<lparr>CurrentPage = page,
                TotalPages = quo64 (sub64 (add64 totalCount limit) 1) limit,
                TotalCount = totalCount, Limit = limit,
                HasNext = (page < quo64 (sub64 (add64 totalCount limit) 1) limit),
                HasPrevious = (page > 1),
                NextPage = add64 page 1, PreviousPage = sub64 page 1\<rparr>,
             Filters = \<lparr>EnquiryType = enquiryType, Date = date\<rparr>\<rparr>) \<and>
   (ParseDate (Get (URLQuery r) ''date'') = Inl e \<and> Method r = ''GET'' \<and>
      Enquiries_Find deps (db w)
        \<lparr>enquiry_type = (if Get (URLQuery r) ''enquiry_type'' = [] then None
                          else Some (Get (URLQuery r) ''enquiry_type'')),
         created_at = None\<rparr>
        \<lparr>opt_Limit = parseLimit (Get (URLQuery r) ''limit''),
         opt_Skip = mul64 (sub64 (parsePage (Get (URLQuery r) ''page'')) 1)
                      (parseLimit (Get (URLQuery r) ''limit'')),
         opt_Sort = [(''created_at'', - 1)]\<rparr> = Inr enquiries \<and>
      Enquiries_CountDocuments deps (db w)
        \<lparr>enquiry_type = (if Get (URLQuery r) ''enquiry_type'' = [] then None
                          else Some (Get (URLQuery r) ''enquiry_type'')),
         created_at = None\<rparr> = Inr totalCount \<longrightarrow>
      (\<exists>resp. GetAllEnquiriesHandler deps r w =
           (Sent 200 (SuccessBody \<lparr>ok_StatusCode = 200, ok_Status = ''success'',
              ok_Message = ''Enquiries retrieved successfully'',
              Data = EnquiryListData resp,
              ok_Timestamp = time_Format deps (time_Now deps (ticks w))\<rparr>),
            w\<lparr>ticks := Suc (ticks w)\<rparr>)
         \<and> Enquiries resp = enquiries \<and> TotalCount (Pagination resp) = totalCount))"
proof (intro conjI impI)
  assume p: "ParseDate date = Inr (year, month, day)"
  show "created_at (enquiryFilter enquiryType date)
        = Some (NewDateTimeFromTime (time_Date year month day 0 0 0 0),
                NewDateTimeFromTime (time_Date year month day 23 59 59 999999999))"
    by (rule enquiryFilter_parsed [OF p])
  show "createdAtMatches (enquiryFilter enquiryType date) t
        = (time_Date year month day 0 0 0 0 \<le> t * Millisecond
           \<and> t * Millisecond \<le> time_Date year month day 23 59 59 999999999)"
    by (rule createdAtMatches_parsed [OF p])
next
  show "time_Date year month day 23 59 59 999999999
        = time_Date year month day 0 0 0 0 + 24 * Hour - 1"
    by (rule end_of_day)
next
  assume a: "ParseDate date = Inr (year, month, day) \<and> limit \<noteq> 0 \<and>
      Enquiries_Find deps (db w)
        \<lparr>enquiry_type = (if enquiryType = [] then None else Some enquiryType),
         created_at = Some (NewDateTimeFromTime (time_Date year month day 0 0 0 0),
                            NewDateTimeFromTime (time_Date year month day 23 59 59 999999999))\<rparr>
        \<lparr>opt_Limit = limit, opt_Skip = mul64 (sub64 page 1) limit,
         opt_Sort = [(''created_at'', - 1)]\<rparr> = Inr enquiries \<and>
      Enquiries_CountDocuments deps (db w)
        \<lparr>enquiry_type = (if enquiryType = [] then None else Some enquiryType),
         created_at = Some (NewDateTimeFromTime (time_Date year month day 0 0 0 0),
                            NewDateTimeFromTime (time_Date year month day 23 59 59 999999999))\<rparr>
        = Inr totalCount"
  then have p: "ParseDate date = Inr (year, month, day)" by (rule conjunct1)
  show "GetAllEnquiries deps w page limit enquiryType date =
        Inr \<lparr>Enquiries = enquiries,
             Pagination =
               \<lparr>CurrentPage = page,
                TotalPages = quo64 (sub64 (add64 totalCount limit) 1) limit,
                TotalCount = totalCount, Limit = limit,
                HasNext = (page < quo64 (sub64 (add64 totalCount limit) 1) limit),
                HasPrevious = (page > 1),
                NextPage = add64 page 1, PreviousPage = sub64 page 1\<rparr>,
             Filters = \<lparr>EnquiryType = enquiryType, Date = date\<rparr>\<rparr>"
    by (rule GetAllEnquiries_answer
          [OF enquiryFilter_parsed_record [OF p] enquiryFindOptions_record])
       (use a in blast)+
next
  assume a: "ParseDate date = Inr (year, month, day) \<and>
      Enquiries_Find deps (db w)
        \<lparr>enquiry_type = (if enquiryType = [] then None else Some enquiryType),
         created_at = Some (NewDateTimeFromTime (time_Date year month day 0 0 0 0),
                            NewDateTimeFromTime (time_Date year month day 23 59 59 999999999))\<rparr>
        \<lparr>opt_Limit = limit, opt_Skip = mul64 (sub64 page 1) limit,
         opt_Sort = [(''created_at'', - 1)]\<rparr> = Inl err"
  then have p: "ParseDate date = Inr (year, month, day)" by (rule conjunct1)
  show "GetAllEnquiries deps w page limit enquiryType date = Inl err"
    by (rule GetAllEnquiries_find_error
          [OF enquiryFilter_parsed_record [OF p] enquiryFindOptions_record])
       (use a in blast)
next
  assume a: "ParseDate date = Inr (year, month, day) \<and>
      Enquiries_Find deps (db w)
        \<lparr>enquiry_type = (if enquiryType = [] then None else Some enquiryType),
         created_at = Some (NewDateTimeFromTime (time_Date year month day 0 0 0 0),
                            NewDateTimeFromTime (time_Date year month day 23 59 59 999999999))\<rparr>
        \<lparr>opt_Limit = limit, opt_Skip = mul64 (sub64 page 1) limit,
         opt_Sort = [(''created_at'', - 1)]\<rparr> = Inr enquiries \<and>
      Enquiries_CountDocuments deps (db w)
        \<lparr>enquiry_type = (if enquiryType = [] then None else Some enquiryType),
         created_at = Some (NewDateTimeFromTime (time_Date year month day 0 0 0 0),
                            NewDateTimeFromTime (time_Date year month day 23 59 59 999999999))\<rparr>
        = Inl err"
  then have p: "ParseDate date = Inr (year, month, day)" by (rule conjunct1)
  show "GetAllEnquiries deps w page limit enquiryType date = Inl err"
    by (rule GetAllEnquiries_count_error
          [OF enquiryFilter_parsed_record [OF p] enquiryFindOptions_record])
       (use a in blast)+
next
  assume u: "ParseDate date = Inl e"
  show "enquiryFilter enquiryType date = enquiryFilter enquiryType []"
    by (rule enquiryFilter_unparsed [OF u])
  then show "created_at (enquiryFilter enquiryType date) = None"
    by (simp add: enquiryFilter_no_date)
  then show "createdAtMatches (enquiryFilter enquiryType date) t"
    by (simp add: createdAtMatches_def)
  show "GetAllEnquiries deps w page limit enquiryType date =
        map_sum id (\<lambda>resp. resp\<lparr>Filters := \<lparr>EnquiryType = enquiryType, Date = date\<rparr>\<rparr>)
          (GetAllEnquiries deps w page limit enquiryType [])"
    by (rule GetAllEnquiries_unparsed [OF u])
next
  assume a: "ParseDate date = Inl e \<and> limit \<noteq> 0 \<and>
      Enquiries_Find deps (db w)
        \<lparr>enquiry_type = (if enquiryType = [] then None else Some enquiryType),
         created_at = None\<rparr>
        \<lparr>opt_Limit = limit, opt_Skip = mul64 (sub64 page 1) limit,
         opt_Sort = [(''created_at'', - 1)]\<rparr> = Inr enquiries \<and>
      Enquiries_CountDocuments deps (db w)
        \<lparr>enquiry_type = (if enquiryType = [] then None else Some enquiryType),
         created_at = None\<rparr> = Inr totalCount"
  then have u: "ParseDate date = Inl e" by (rule conjunct1)
  show "GetAllEnquiries deps w page limit enquiryType date =
        Inr \<lparr>Enquiries = enquiries,
             Pagination =
               \<lparr>CurrentPage = page,
                TotalPages = quo64 (sub64 (add64 totalCount limit) 1) limit,
                TotalCount = totalCount, Limit = limit,
                HasNext = (page < quo64 (sub64 (add64 totalCount limit) 1) limit),
                HasPrevious = (page > 1),
                NextPage = add64 page 1, PreviousPage = sub64 page 1\<rparr>,
             Filters = \<lparr>EnquiryType = enquiryType, Date = date\<rparr>\<rparr>"
    by (rule GetAllEnquiries_answer
          [OF enquiryFilter_unparsed_record [OF u] enquiryFindOptions_record])
       (use a in blast)+
next
  assume a: "ParseDate (Get (URLQuery r) ''date'') = Inl e \<and> Method r = ''GET'' \<and>
      Enquiries_Find deps (db w)
        \<lparr>enquiry_type = (if Get (URLQuery r) ''enquiry_type'' = [] then None
                          else Some (Get (URLQuery r) ''enquiry_type'')),
         created_at = None\<rparr>
        \<lparr>opt_Limit = parseLimit (Get (URLQuery r) ''limit''),
         opt_Skip = mul64 (sub64 (parsePage (Get (URLQuery r) ''page'')) 1)
                      (parseLimit (Get (URLQuery r) ''limit'')),
         opt_Sort = [(''created_at'', - 1)]\<rparr> = Inr enquiries \<and>
      Enquiries_CountDocuments deps (db w)
        \<lparr>enquiry_type = (if Get (URLQuery r) ''enquiry_type'' = [] then None
                          else Some (Get (URLQuery r) ''enquiry_type'')),
         created_at = None\<rparr> = Inr totalCount"
  then have u: "ParseDate (Get (URLQuery r) ''date'') = Inl e" by (rule conjunct1)
  note f = enquiryFilter_unparsed_record [OF u, of "Get (URLQuery r) ''enquiry_type''"]
  note o = enquiryFindOptions_record [of "parsePage (Get (URLQuery r) ''page'')"
      "parseLimit (Get (URLQuery r) ''limit'')"]
  have m: "Method r = ''GET''" using a by blast
  have 1: "Enquiries_Find deps (db w)
             (enquiryFilter (Get (URLQuery r) ''enquiry_type'') (Get (URLQuery r) ''date''))
             (enquiryFindOptions (parsePage (Get (URLQuery r) ''page''))
                (parseLimit (Get (URLQuery r) ''limit''))) = Inr enquiries"
    unfolding f o using a by blast
  have 2: "Enquiries_CountDocuments deps (db w)
             (enquiryFilter (Get (URLQuery r) ''enquiry_type'') (Get (URLQuery r) ''date''))
             = Inr totalCount"
    unfolding f using a by blast
  show "\<exists>resp. GetAllEnquiriesHandler deps r w =
           (Sent 200 (SuccessBody \<lparr>ok_StatusCode = 200, ok_Status = ''success'',
              ok_Message = ''Enquiries retrieved successfully'',
              Data = EnquiryListData resp,
              ok_Timestamp = time_Format deps (time_Now deps (ticks w))\<rparr>),
            w\<lparr>ticks := Suc (ticks w)\<rparr>)
         \<and> Enquiries resp = enquiries \<and> TotalCount (Pagination resp) = totalCount"
    by (rule handler_succeeds [OF m 1 2])
qed

lemma ParseDate_examples:
  "ParseDate ''2024-01-15'' = Inr (2024, 1, 15)"
  "ParseDate ''2024-13-40'' = Inl (ErrorString ''month out of range'')"
  by (simp_all add: ParseDate_def isDigit_def digitValue_def daysIn_def isLeap_def)

lemma time_Date_example:
  "time_Date 2024 1 15 0 0 0 0 = 1705276800000000000"
  "time_Date 2024 1 15 23 59 59 999999999 = 1705363199999999999"
  by (simp_all add: time_Date_def daysFromCivil_def Second_def)

lemma NewDateTimeFromTime_example:
  "NewDateTimeFromTime 1705276800000000000 = 1705276800000"
  "NewDateTimeFromTime 1705363199999999999 = 1705363199999"
  by (simp_all add: NewDateTimeFromTime_def Second_def Millisecond_def)

lemma first_page_options: "mul64 (sub64 1 1) 10 = 0" "mul64 0 10 = 0"
  by (simp_all add: mul64_def sub64_def wrap64_def)

lemma filtering_store_day:
  "Enquiries_Find filteringDeps (db stubWorld)
     \<lparr>enquiry_type = None, created_at = Some (1705276800000, 1705363199999)\<rparr>
     \<lparr>opt_Limit = 10, opt_Skip = 0, opt_Sort = [(''created_at'', - 1)]\<rparr>
     = Inr [sampleEnquiry ''q2'' ''general'' 1705363199999,
            sampleEnquiry ''q1'' ''support'' 1705276800000]"
  "Enquiries_CountDocuments filteringDeps (db stubWorld)
     \<lparr>enquiry_type = None, created_at = Some (1705276800000, 1705363199999)\<rparr> = Inr 2"
  by (simp_all add: filteringDeps_def stubDeps_def sampleEnquiries_def sampleEnquiry_def
      storeMatches_def createdAtMatches_def)

lemma filtering_store_all:
  "Enquiries_Find filteringDeps (db stubWorld) \<lparr>enquiry_type = None, created_at = None\<rparr>
     \<lparr>opt_Limit = 10, opt_Skip = 0, opt_Sort = [(''created_at'', - 1)]\<rparr>
     = Inr sampleEnquiries"
  "Enquiries_CountDocuments filteringDeps (db stubWorld)
     \<lparr>enquiry_type = None, created_at = None\<rparr> = Inr 3"
  by (simp_all add: filteringDeps_def stubDeps_def sampleEnquiries_def sampleEnquiry_def
      storeMatches_def createdAtMatches_def)

lemma first_page_totals:
  "quo64 (sub64 (add64 2 10) 1) 10 = 1" "quo64 (sub64 (add64 3 10) 1) 10 = 1"
  "add64 1 1 = 2" "sub64 1 1 = 0"
  by (simp_all add: quo64_def sub64_def add64_def wrap64_def)

theorem date_filter_witness:
  "created_at (enquiryFilter ''general'' ''2024-01-15'')
     = Some (1705276800000, 1705363199999) \<and>
   createdAtMatches (enquiryFilter ''general'' ''2024-01-15'') 1705276800000 \<and>
   createdAtMatches (enquiryFilter ''general'' ''2024-01-15'') 1705363199999 \<and>
   \<not> createdAtMatches (enquiryFilter ''general'' ''2024-01-15'') 1705363200000 \<and>
   \<not> createdAtMatches (enquiryFilter ''general'' ''2024-01-15'') 1705276799999 \<and>
   created_at (enquiryFilter ''general'' ''2024-13-40'') = None \<and>
   createdAtMatches (enquiryFilter ''general'' ''2024-13-40'') 1705363200000 \<and>
   GetAllEnquiries filteringDeps stubWorld 1 10 [] ''2024-01-15'' =
     Inr \<lparr>Enquiries = [sampleEnquiry ''q2'' ''general'' 1705363199999,
                       sampleEnquiry ''q1'' ''support'' 1705276800000],
          Pagination =
            \<lparr>CurrentPage = 1, TotalPages = 1, TotalCount = 2, Limit = 10,
             HasNext = False, HasPrevious = False, NextPage = 2, PreviousPage = 0\<rparr>,
          Filters = \<lparr>EnquiryType = [], Date = ''2024-01-15''\<rparr>\<rparr> \<and>
   GetAllEnquiries filteringDeps stubWorld 1 10 [] ''2024-13-40'' =
     Inr \<lparr>Enquiries = sampleEnquiries,
          Pagination =
            \<lparr>CurrentPage = 1, TotalPages = 1, TotalCount = 3, Limit = 10,
             HasNext = False, HasPrevious = False, NextPage = 2, PreviousPage = 0\<rparr>,
          Filters = \<lparr>EnquiryType = [], Date = ''2024-13-40''\<rparr>\<rparr> \<and>
   fst (GetAllEnquiriesHandler filteringDeps (listRequest [(''date'', ''2024-13-40'')])
          stubWorld) =
     Sent 200 (SuccessBody
       \<lparr>ok_StatusCode = 200, ok_Status = ''success'',
        ok_Message = ''Enquiries retrieved successfully'',
        Data = EnquiryListData
          \<lparr>Enquiries = sampleEnquiries,
           Pagination =
             \<lparr>CurrentPage = 1, TotalPages = 1, TotalCount = 3, Limit = 10,
              HasNext = False, HasPrevious = False, NextPage = 2, PreviousPage = 0\<rparr>,
           Filters = \<lparr>EnquiryType = [], Date = ''2024-13-40''\<rparr>\<rparr>,
        ok_Timestamp = ''2023-11-14T22:13:20Z''\<rparr>)"
proof -
  note D1 = date_filter [where date = "''2024-01-15''" and year = 2024 and month = 1
      and day = 15 and enquiryType = "''general''"
      and e = "ErrorString ''month out of range''" and err = "ErrorString ''month out of range''"
      and deps = filteringDeps and w = stubWorld and page = 1 and limit = 10
      and r = "listRequest [(''date'', ''2024-13-40'')]" and enquiries = sampleEnquiries
      and totalCount = 3]
  note D2 = date_filter [where date = "''2024-01-15''" and year = 2024 and month = 1
      and day = 15 and enquiryType = "[]"
      and e = "ErrorString ''month out of range''" and err = "ErrorString ''month out of range''"
      and deps = filteringDeps and w = stubWorld and page = 1 and limit = 10
      and r = "listRequest [(''date'', ''2024-13-40'')]"
      and enquiries = "[sampleEnquiry ''q2'' ''general'' 1705363199999,
                        sampleEnquiry ''q1'' ''support'' 1705276800000]"
      and totalCount = 2 and t = 0]
  note D3 = date_filter [where date = "''2024-13-40''" and year = 2024 and month = 1
      and day = 15 and enquiryType = "''general''"
      and e = "ErrorString ''month out of range''" and err = "ErrorString ''month out of range''"
      and deps = filteringDeps and w = stubWorld and page = 1 and limit = 10
      and r = "listRequest [(''date'', ''2024-13-40'')]" and enquiries = sampleEnquiries
      and totalCount = 3]
  note D4 = date_filter [where date = "''2024-13-40''" and year = 2024 and month = 1
      and day = 15 and enquiryType = "[]"
      and e = "ErrorString ''month out of range''" and err = "ErrorString ''month out of range''"
      and deps = filteringDeps and w = stubWorld and page = 1 and limit = 10
      and r = "listRequest [(''date'', ''2024-13-40'')]" and enquiries = sampleEnquiries
      and totalCount = 3 and t = 0]
  have u: "ParseDate ''2024-13-40'' = Inl (ErrorString ''month out of range'')"
    by (rule ParseDate_examples(2))
  have c1: "created_at (enquiryFilter ''general'' ''2024-01-15'')
        = Some (1705276800000, 1705363199999)"
    and t1: "createdAtMatches (enquiryFilter ''general'' ''2024-01-15'') t
        = (1705276800000000000 \<le> t * Millisecond \<and> t * Millisecond \<le> 1705363199999999999)"
    for t
    using D1 [of t]
    by (simp_all add: ParseDate_examples time_Date_example NewDateTimeFromTime_example)
  have t2: "createdAtMatches (enquiryFilter ''general'' ''2024-13-40'') t"
    and c2: "created_at (enquiryFilter ''general'' ''2024-13-40'') = None" for t
    using D3 [of t] u by blast+
  have g1: "GetAllEnquiries filteringDeps stubWorld 1 10 [] ''2024-01-15'' =
     Inr \<lparr>Enquiries = [sampleEnquiry ''q2'' ''general'' 1705363199999,
                       sampleEnquiry ''q1'' ''support'' 1705276800000],
          Pagination =
            \<lparr>CurrentPage = 1, TotalPages = 1, TotalCount = 2, Limit = 10,
             HasNext = False, HasPrevious = False, NextPage = 2, PreviousPage = 0\<rparr>,
          Filters = \<lparr>EnquiryType = [], Date = ''2024-01-15''\<rparr>\<rparr>"
    using D2 [THEN conjunct2, THEN conjunct1]
    by (simp add: ParseDate_examples time_Date_example NewDateTimeFromTime_example
        first_page_options filtering_store_day first_page_totals)
  have g2: "GetAllEnquiries filteringDeps stubWorld 1 10 [] ''2024-13-40'' =
     Inr \<lparr>Enquiries = sampleEnquiries,
          Pagination =
            \<lparr>CurrentPage = 1, TotalPages = 1, TotalCount = 3, Limit = 10,
             HasNext = False, HasPrevious = False, NextPage = 2, PreviousPage = 0\<rparr>,
          Filters = \<lparr>EnquiryType = [], Date = ''2024-13-40''\<rparr>\<rparr>"
    using D4 [THEN conjunct2, THEN conjunct2, THEN conjunct2, THEN conjunct2, THEN conjunct2,
        THEN conjunct1]
    by (simp add: ParseDate_examples first_page_options filtering_store_all
        first_page_totals)
  have q: "Get (URLQuery (listRequest [(''date'', ''2024-13-40'')])) ''date'' = ''2024-13-40''"
    "Get (URLQuery (listRequest [(''date'', ''2024-13-40'')])) ''enquiry_type'' = []"
    "Get (URLQuery (listRequest [(''date'', ''2024-13-40'')])) ''page'' = []"
    "Get (URLQuery (listRequest [(''date'', ''2024-13-40'')])) ''limit'' = []"
    "Method (listRequest [(''date'', ''2024-13-40'')]) = ''GET''"
    by (simp_all add: listRequest_def stubRequest_def Get_def)
  have p: "parsePage [] = 1" "parseLimit [] = 10"
    by (simp_all add: parsePage_def parseLimit_def)
  have s: "sendSuccess filteringDeps stubWorld code msg payload =
             (Sent code (SuccessBody \<lparr>ok_StatusCode = code, ok_Status = ''success'',
                ok_Message = msg, Data = payload, ok_Timestamp = ''2023-11-14T22:13:20Z''\<rparr>),
              stubWorld\<lparr>ticks := Suc (ticks stubWorld)\<rparr>)" for code msg payload
    by (simp add: sendSuccess_def CreateSuccessResponse_def Now_def filteringDeps_def
        stubDeps_def)
  have h: "fst (GetAllEnquiriesHandler filteringDeps (listRequest [(''date'', ''2024-13-40'')])
                  stubWorld) =
     Sent 200 (SuccessBody
       \<lparr>ok_StatusCode = 200, ok_Status = ''success'',
        ok_Message = ''Enquiries retrieved successfully'',
        Data = EnquiryListData
          \<lparr>Enquiries = sampleEnquiries,
           Pagination =
             \<lparr>CurrentPage = 1, TotalPages = 1, TotalCount = 3, Limit = 10,
              HasNext = False, HasPrevious = False, NextPage = 2, PreviousPage = 0\<rparr>,
           Filters = \<lparr>EnquiryType = [], Date = ''2024-13-40''\<rparr>\<rparr>,
        ok_Timestamp = ''2023-11-14T22:13:20Z''\<rparr>)"
    unfolding GetAllEnquiriesHandler_def q Let_def p g2
    by (simp add: s StatusOK_def)
  show ?thesis
    by (simp add: c1 t1 c2 t2 g1 g2 h Millisecond_def)
qed

end
